theory Spec2Isabelle
  imports Main "HOL-Library.Word"
begin

section \<open>The libgpiod objects the wrapper talks to\<close>

text \<open>
  The wrapper classes of \<^verbatim>\<open>src/native\<close> (Chip, LineConfig, LineRequest, Line) sit between
  JavaScript and libgpiod's C++ binding. This section fixes the data that crosses the
  libgpiod side: offsets are \<^verbatim>\<open>unsigned int\<close> (32 bits), the scoped enums of
  \<^verbatim>\<open>gpiod::line\<close> are datatypes, \<^verbatim>\<open>gpiod::line_settings\<close> is a record whose default value is
  the one a default-constructed settings object has.
\<close>

type_synonym offset = "32 word"

datatype direction = DIRECTION_AS_IS | INPUT | OUTPUT
datatype edge = NONE | RISING | FALLING | BOTH
datatype bias = BIAS_AS_IS | UNKNOWN | DISABLED | PULL_UP | PULL_DOWN
datatype drive = PUSH_PULL | OPEN_DRAIN | OPEN_SOURCE
datatype clock = MONOTONIC | REALTIME | HTE
datatype line_value = INACTIVE | ACTIVE

record line_settings =
  direction :: direction
  edge_detection :: edge
  bias :: bias
  drive :: drive
  active_low :: bool
  event_clock :: clock
  debounce_period :: int
  output_value :: line_value

definition default_line_settings :: line_settings where
  "default_line_settings =
     \<lparr>direction = DIRECTION_AS_IS, edge_detection = NONE, bias = BIAS_AS_IS,
      drive = PUSH_PULL, active_low = False, event_clock = MONOTONIC,
      debounce_period = 0, output_value = INACTIVE\<rparr>"

subsection \<open>std::map\<close>

text \<open>
  Both \<^verbatim>\<open>LineConfig::settings_map_\<close> and the value returned by
  \<^verbatim>\<open>gpiod::line_config::get_line_settings()\<close> are \<^verbatim>\<open>std::map\<close>s keyed by offset. A
  \<^verbatim>\<open>std::map\<close> is modelled as an association list kept in increasing key order:
  \<^verbatim>\<open>find\<close> is a lookup, \<^verbatim>\<open>operator[]=\<close> inserts at the key's place or overwrites,
  \<^verbatim>\<open>empty()\<close> is the test against the empty list and \<^verbatim>\<open>begin()\<close> is the head
  (\<open>None\<close> when \<^verbatim>\<open>begin() == end()\<close>, where the iterator must not be dereferenced).
\<close>

type_synonym ('k, 'v) std_map = "('k \<times> 'v) list"

definition map_find :: "'k \<Rightarrow> ('k, 'v) std_map \<Rightarrow> 'v option" where
  "map_find k m = map_of m k"

fun map_assign :: "'k::linorder \<Rightarrow> 'v \<Rightarrow> ('k, 'v) std_map \<Rightarrow> ('k, 'v) std_map" where
  "map_assign k v [] = [(k, v)]"
| "map_assign k v ((k', v') # m) =
     (if k < k' then (k, v) # (k', v') # m
      else if k = k' then (k, v) # m
      else (k', v') # map_assign k v m)"

definition map_begin :: "('k, 'v) std_map \<Rightarrow> ('k \<times> 'v) option" where
  "map_begin m = (case m of [] \<Rightarrow> None | first # rest \<Rightarrow> Some first)"

definition map_keys :: "('k, 'v) std_map \<Rightarrow> 'k list" where
  "map_keys m = map fst m"

definition ordered_map :: "('k::linorder, 'v) std_map \<Rightarrow> bool" where
  "ordered_map m = sorted_wrt (<) (map_keys m)"

subsection \<open>gpiod::line_config and gpiod::request_builder\<close>

text \<open>
  The wrapper uses a \<^verbatim>\<open>gpiod::line_config\<close> through two calls only:
  \<^verbatim>\<open>add_line_settings(offset, settings)\<close>, which stores a copy of the settings for the
  offset (replacing what was stored for it), and \<^verbatim>\<open>get_line_settings()\<close>, which returns
  the stored settings as a \<^verbatim>\<open>std::map\<close>. The object is modelled as that map. A
  \<^verbatim>\<open>gpiod::request_builder\<close> carries the consumer string and its own line configuration.
  The in-memory calls on these objects are taken not to throw.
\<close>

type_synonym gpiod_line_config = "(offset, line_settings) std_map"

definition add_line_settings ::
  "offset \<Rightarrow> line_settings \<Rightarrow> gpiod_line_config \<Rightarrow> gpiod_line_config" where
  "add_line_settings off s cfg = map_assign off s cfg"

definition get_line_settings :: "gpiod_line_config \<Rightarrow> (offset, line_settings) std_map" where
  "get_line_settings cfg = cfg"

record request_builder =
  consumer :: string
  line_cfg :: gpiod_line_config

definition prepare_request :: request_builder where
  "prepare_request = \<lparr>consumer = [], line_cfg = []\<rparr>"

definition set_consumer :: "string \<Rightarrow> request_builder \<Rightarrow> request_builder" where
  "set_consumer c b = b\<lparr>consumer := c\<rparr>"

definition set_line_config :: "gpiod_line_config \<Rightarrow> request_builder \<Rightarrow> request_builder" where
  "set_line_config cfg b = b\<lparr>line_cfg := cfg\<rparr>"

definition builder_add_line_settings ::
  "offset \<Rightarrow> line_settings \<Rightarrow> request_builder \<Rightarrow> request_builder" where
  "builder_add_line_settings off s b = b\<lparr>line_cfg := add_line_settings off s (line_cfg b)\<rparr>"

subsection \<open>Device handles and the device's answers\<close>

text \<open>
  An open chip and a granted request are handles into the kernel. What the device answers
  to a call is not decided by the wrapper, so every device call is a field of a
  \<open>device\<close> record: \<open>Inl what\<close> is a \<^verbatim>\<open>std::exception\<close> thrown by libgpiod with that
  \<^verbatim>\<open>what()\<close> text, \<open>Inr r\<close> a normal return.
\<close>

record gpiod_chip =
  chip_path :: string

record chip_info =
  num_lines :: nat
  label :: string

record line_info =
  info_name :: string
  info_used :: bool
  info_direction :: direction
  info_active_low :: bool
  info_consumer :: string

record gpiod_line_request =
  granted_consumer :: string
  granted_lines :: gpiod_line_config

record device =
  open_chip :: "string \<Rightarrow> string + gpiod_chip"
  get_info :: "gpiod_chip \<Rightarrow> string + chip_info"
  get_line_info :: "gpiod_chip \<Rightarrow> offset \<Rightarrow> string + line_info"
  do_request :: "gpiod_chip \<Rightarrow> request_builder \<Rightarrow> string + gpiod_line_request"
  get_value :: "gpiod_line_request \<Rightarrow> offset \<Rightarrow> string + line_value"
  set_value :: "gpiod_line_request \<Rightarrow> offset \<Rightarrow> line_value \<Rightarrow> string + unit"

section \<open>The wrapper objects\<close>

text \<open>
  Each wrapper class is a record of its private members. A \<^verbatim>\<open>shared_ptr\<close> that may be
  null is an option. A member \<^verbatim>\<open>m_\<close> of a class is the field \<open>c_m\<close>, with \<open>c\<close> one of
  \<open>chip\<close>, \<open>cfg\<close> (LineConfig), \<open>req\<close> (LineRequest) and \<open>line\<close>: several classes
  have a \<^verbatim>\<open>chip_\<close> or a \<^verbatim>\<open>request_\<close>, and field names are global.
\<close>

record Chip =
  chip_chip :: "gpiod_chip option"
  chip_name :: string

record LineConfig =
  cfg_config :: gpiod_line_config
  cfg_settings_map :: "(offset, line_settings) std_map"
  cfg_current_offset :: offset

record LineRequest =
  req_chip :: Chip
  req_config :: LineConfig
  req_offsets :: "offset list"
  req_request :: "gpiod_line_request option"

subsection \<open>JavaScript values and exceptions\<close>

text \<open>
  A JavaScript value that wraps a native object carries that object. A number is given
  by its integral value; \<^verbatim>\<open>Uint32Value\<close> and \<^verbatim>\<open>Int32Value\<close> keep its low 32 bits.
  \<^verbatim>\<open>info[i]\<close> beyond the arguments passed is \<^verbatim>\<open>undefined\<close>, as in node-addon-api.

  A call ends in one of three ways besides returning: a \<^verbatim>\<open>Napi::TypeError\<close> or a
  \<^verbatim>\<open>Napi::Error\<close> thrown to JavaScript with a message, or no JavaScript exception at all
  because the native code dereferenced a null pointer or called \<^verbatim>\<open>std::terminate\<close>
  (\<open>Crash\<close>).
\<close>

datatype napi_value =
    Undefined
  | Null
  | Boolean bool
  | Number int
  | String string
  | Function nat
  | Array "napi_value list"
  | PlainObject "(string \<times> napi_value) list"
  | ChipObject Chip
  | LineConfigObject LineConfig
  | LineRequestObject LineRequest

datatype failure = TypeError string | Error string | Crash

type_synonym callback_info = "napi_value list"

definition arg :: "callback_info \<Rightarrow> nat \<Rightarrow> napi_value" where
  "arg info i = (if i < length info then info ! i else Undefined)"

fun IsNumber :: "napi_value \<Rightarrow> bool" where
  "IsNumber (Number n) = True"
| "IsNumber v = False"

fun IsString :: "napi_value \<Rightarrow> bool" where
  "IsString (String s) = True"
| "IsString v = False"

fun IsBoolean :: "napi_value \<Rightarrow> bool" where
  "IsBoolean (Boolean b) = True"
| "IsBoolean v = False"

fun IsFunction :: "napi_value \<Rightarrow> bool" where
  "IsFunction (Function f) = True"
| "IsFunction v = False"

fun IsArray :: "napi_value \<Rightarrow> bool" where
  "IsArray (Array xs) = True"
| "IsArray v = False"

fun IsObject :: "napi_value \<Rightarrow> bool" where
  "IsObject (Array xs) = True"
| "IsObject (Function f) = True"
| "IsObject (PlainObject ps) = True"
| "IsObject (ChipObject c) = True"
| "IsObject (LineConfigObject c) = True"
| "IsObject (LineRequestObject r) = True"
| "IsObject v = False"

fun Uint32Value :: "napi_value \<Rightarrow> 32 word" where
  "Uint32Value (Number n) = word_of_int n"
| "Uint32Value v = 0"

fun Int32Value :: "napi_value \<Rightarrow> 32 word" where
  "Int32Value (Number n) = word_of_int n"
| "Int32Value v = 0"

fun Int64Value :: "napi_value \<Rightarrow> int" where
  "Int64Value (Number n) = (if - (2 ^ 63) \<le> n \<and> n < 2 ^ 63 then n else - (2 ^ 63))"
| "Int64Value v = 0"

fun Utf8Value :: "napi_value \<Rightarrow> string" where
  "Utf8Value (String s) = s"
| "Utf8Value v = []"

fun BooleanValue :: "napi_value \<Rightarrow> bool" where
  "BooleanValue (Boolean b) = b"
| "BooleanValue v = False"

text \<open>
  The specification sorts failures into three kinds (its section 7). Read on the
  exceptions this code throws: a \<^verbatim>\<open>TypeError\<close> reports malformed input; the three fixed
  messages report an operation on an object in the wrong lifecycle state; a message that
  wraps the \<^verbatim>\<open>what()\<close> of a libgpiod exception (``Failed to ...: what'') reports a device
  failure.
\<close>

datatype error_kind = ValidationError | StateError | DeviceError

fun kind_of :: "failure \<Rightarrow> error_kind option" where
  "kind_of (TypeError m) = Some ValidationError"
| "kind_of (Error m) =
     (if m = ''Chip is closed'' \<or> m = ''Line is not exported'' \<or> m = ''Line request is not active''
      then Some StateError
      else if take 10 m = ''Failed to ''
      then Some DeviceError
      else None)"
| "kind_of Crash = None"

section \<open>LineConfig (line_config.cpp)\<close>

definition LineConfig_new :: LineConfig where
  "LineConfig_new = \<lparr>cfg_config = [], cfg_settings_map = [], cfg_current_offset = 0\<rparr>"

text \<open>
  \<^verbatim>\<open>EnsureSettingsForCurrentOffset\<close>: the entry of the current offset if there is one,
  else a fresh default settings object stored in \<open>cfg_settings_map\<close> and added to
  \<open>cfg_config\<close>.
\<close>

definition EnsureSettingsForCurrentOffset :: "LineConfig \<Rightarrow> line_settings \<times> LineConfig" where
  "EnsureSettingsForCurrentOffset lc =
     (case map_find (cfg_current_offset lc) (cfg_settings_map lc) of
        Some s \<Rightarrow> (s, lc)
      | None \<Rightarrow>
          (let settings = default_line_settings
           in (settings,
               lc\<lparr>cfg_settings_map := map_assign (cfg_current_offset lc) settings (cfg_settings_map lc),
                  cfg_config := add_line_settings (cfg_current_offset lc) settings (cfg_config lc)\<rparr>)))"

text \<open>
  A setter changes the settings object it got from \<^verbatim>\<open>EnsureSettingsForCurrentOffset\<close>
  through the shared pointer, so the entry of \<open>cfg_settings_map\<close> changes with it, and then
  copies the object into \<open>cfg_config\<close>.
\<close>

definition store_settings :: "line_settings \<Rightarrow> LineConfig \<Rightarrow> LineConfig" where
  "store_settings s lc =
     lc\<lparr>cfg_settings_map := map_assign (cfg_current_offset lc) s (cfg_settings_map lc),
        cfg_config := add_line_settings (cfg_current_offset lc) s (cfg_config lc)\<rparr>"

definition SetOffset :: "callback_info \<Rightarrow> LineConfig \<Rightarrow> (failure + napi_value) \<times> LineConfig" where
  "SetOffset info lc =
     (if length info < 1 \<or> \<not> IsNumber (arg info 0)
      then (Inl (TypeError ''Offset number expected''), lc)
      else (let lc1 = lc\<lparr>cfg_current_offset := Uint32Value (arg info 0)\<rparr>;
                (settings, lc2) = EnsureSettingsForCurrentOffset lc1
            in (Inr Undefined, lc2)))"

definition SetDirection :: "callback_info \<Rightarrow> LineConfig \<Rightarrow> (failure + napi_value) \<times> LineConfig" where
  "SetDirection info lc =
     (if length info < 1 \<or> \<not> IsString (arg info 0)
      then (Inl (TypeError ''Direction string expected''), lc)
      else (let direction = Utf8Value (arg info 0);
                (settings, lc1) = EnsureSettingsForCurrentOffset lc
            in if direction = ''input''
               then (Inr Undefined, store_settings (settings\<lparr>direction := INPUT\<rparr>) lc1)
               else if direction = ''output''
               then (Inr Undefined, store_settings (settings\<lparr>direction := OUTPUT\<rparr>) lc1)
               else (Inl (TypeError (''Invalid direction: must be 'input' or 'output'' @ [CHR 0x27])), lc1)))"

definition SetEdge :: "callback_info \<Rightarrow> LineConfig \<Rightarrow> (failure + napi_value) \<times> LineConfig" where
  "SetEdge info lc =
     (if length info < 1 \<or> \<not> IsString (arg info 0)
      then (Inl (TypeError ''Edge string expected''), lc)
      else (let edge = Utf8Value (arg info 0);
                (settings, lc1) = EnsureSettingsForCurrentOffset lc
            in if edge = ''none''
               then (Inr Undefined, store_settings (settings\<lparr>edge_detection := NONE\<rparr>) lc1)
               else if edge = ''rising''
               then (Inr Undefined, store_settings (settings\<lparr>edge_detection := RISING\<rparr>) lc1)
               else if edge = ''falling''
               then (Inr Undefined, store_settings (settings\<lparr>edge_detection := FALLING\<rparr>) lc1)
               else if edge = ''both''
               then (Inr Undefined, store_settings (settings\<lparr>edge_detection := BOTH\<rparr>) lc1)
               else (Inl (TypeError
                       (''Invalid edge: must be 'none', 'rising', 'falling', or 'both'' @ [CHR 0x27])), lc1)))"

definition SetDrive :: "callback_info \<Rightarrow> LineConfig \<Rightarrow> (failure + napi_value) \<times> LineConfig" where
  "SetDrive info lc =
     (if length info < 1 \<or> \<not> IsString (arg info 0)
      then (Inl (TypeError ''Drive string expected''), lc)
      else (let drive = Utf8Value (arg info 0);
                (settings, lc1) = EnsureSettingsForCurrentOffset lc
            in if drive = ''push_pull''
               then (Inr Undefined, store_settings (settings\<lparr>drive := PUSH_PULL\<rparr>) lc1)
               else if drive = ''open_drain''
               then (Inr Undefined, store_settings (settings\<lparr>drive := OPEN_DRAIN\<rparr>) lc1)
               else if drive = ''open_source''
               then (Inr Undefined, store_settings (settings\<lparr>drive := OPEN_SOURCE\<rparr>) lc1)
               else (Inl (TypeError
                       (''Invalid drive: must be 'push_pull', 'open_drain', or 'open_source'' @ [CHR 0x27])),
                     lc1)))"

definition SetBias :: "callback_info \<Rightarrow> LineConfig \<Rightarrow> (failure + napi_value) \<times> LineConfig" where
  "SetBias info lc =
     (if length info < 1 \<or> \<not> IsString (arg info 0)
      then (Inl (TypeError ''Bias string expected''), lc)
      else (let bias = Utf8Value (arg info 0);
                (settings, lc1) = EnsureSettingsForCurrentOffset lc
            in if bias = ''unknown''
               then (Inr Undefined, store_settings (settings\<lparr>bias := UNKNOWN\<rparr>) lc1)
               else if bias = ''disabled''
               then (Inr Undefined, store_settings (settings\<lparr>bias := DISABLED\<rparr>) lc1)
               else if bias = ''pull_up''
               then (Inr Undefined, store_settings (settings\<lparr>bias := PULL_UP\<rparr>) lc1)
               else if bias = ''pull_down''
               then (Inr Undefined, store_settings (settings\<lparr>bias := PULL_DOWN\<rparr>) lc1)
               else (Inl (TypeError
                       (''Invalid bias: must be 'unknown', 'disabled', 'pull_up', or 'pull_down'' @ [CHR 0x27])),
                     lc1)))"

definition SetActiveLow :: "callback_info \<Rightarrow> LineConfig \<Rightarrow> (failure + napi_value) \<times> LineConfig" where
  "SetActiveLow info lc =
     (if length info < 1 \<or> \<not> IsBoolean (arg info 0)
      then (Inl (TypeError ''Boolean expected''), lc)
      else (let active_low = BooleanValue (arg info 0);
                (settings, lc1) = EnsureSettingsForCurrentOffset lc
            in (Inr Undefined, store_settings (settings\<lparr>active_low := active_low\<rparr>) lc1)))"

definition SetOutputValue :: "callback_info \<Rightarrow> LineConfig \<Rightarrow> (failure + napi_value) \<times> LineConfig" where
  "SetOutputValue info lc =
     (if length info < 1 \<or> \<not> IsBoolean (arg info 0)
      then (Inl (TypeError ''Boolean expected''), lc)
      else (let v = BooleanValue (arg info 0);
                (settings, lc1) = EnsureSettingsForCurrentOffset lc
            in (Inr Undefined,
                store_settings (settings\<lparr>output_value := (if v then ACTIVE else INACTIVE)\<rparr>) lc1)))"

definition SetDebouncePeriod ::
  "callback_info \<Rightarrow> LineConfig \<Rightarrow> (failure + napi_value) \<times> LineConfig" where
  "SetDebouncePeriod info lc =
     (if length info < 1 \<or> \<not> IsNumber (arg info 0)
      then (Inl (TypeError ''Debounce period in microseconds expected''), lc)
      else (let period_us = Int64Value (arg info 0);
                (settings, lc1) = EnsureSettingsForCurrentOffset lc
            in (Inr Undefined, store_settings (settings\<lparr>debounce_period := period_us\<rparr>) lc1)))"

definition GetConfig :: "LineConfig \<Rightarrow> gpiod_line_config" where
  "GetConfig lc = cfg_config lc"

text \<open>
  The instance methods \<^verbatim>\<open>LineConfig::Init\<close> registers, by their JavaScript names. They
  are the only way JavaScript has to change a LineConfig.
\<close>

definition LineConfig_methods ::
  "(string \<times> (callback_info \<Rightarrow> LineConfig \<Rightarrow> (failure + napi_value) \<times> LineConfig)) list"
where
  "LineConfig_methods =
     [(''setOffset'', SetOffset),
      (''setDirection'', SetDirection),
      (''setEdge'', SetEdge),
      (''setDrive'', SetDrive),
      (''setBias'', SetBias),
      (''setActiveLow'', SetActiveLow),
      (''setOutputValue'', SetOutputValue),
      (''setDebouncePeriod'', SetDebouncePeriod)]"


section \<open>Chip (chip.cpp)\<close>

definition Chip_new :: "device \<Rightarrow> callback_info \<Rightarrow> failure + Chip" where
  "Chip_new dev info =
     (if length info < 1 \<or> \<not> IsString (arg info 0)
      then Inl (TypeError ''String expected for chip name'')
      else (let name = Utf8Value (arg info 0)
            in case open_chip dev name of
                 Inl what \<Rightarrow> Inl (Error (''Failed to open GPIO chip: '' @ what))
               | Inr c \<Rightarrow> Inr \<lparr>chip_chip = Some c, chip_name = name\<rparr>))"

definition GetNumLines :: "device \<Rightarrow> callback_info \<Rightarrow> Chip \<Rightarrow> failure + napi_value" where
  "GetNumLines dev info chip =
     (case chip_chip chip of
        None \<Rightarrow> Inl (Error ''Chip is closed'')
      | Some c \<Rightarrow>
          (case get_info dev c of
             Inl what \<Rightarrow> Inl (Error (''Failed to get number of lines: '' @ what))
           | Inr chip_info \<Rightarrow> Inr (Number (int (num_lines chip_info)))))"

definition Close :: "callback_info \<Rightarrow> Chip \<Rightarrow> (failure + napi_value) \<times> Chip" where
  "Close info chip =
     (case chip_chip chip of
        None \<Rightarrow> (Inr Undefined, chip)
      | Some c \<Rightarrow> (Inr Undefined, chip\<lparr>chip_chip := None\<rparr>))"

definition GetChip :: "Chip \<Rightarrow> gpiod_chip option" where
  "GetChip chip = chip_chip chip"

definition direction_string :: "direction \<Rightarrow> string" where
  "direction_string d =
     (case d of INPUT \<Rightarrow> ''input'' | OUTPUT \<Rightarrow> ''output'' | DIRECTION_AS_IS \<Rightarrow> ''unknown'')"

definition GetLineInfo :: "device \<Rightarrow> callback_info \<Rightarrow> Chip \<Rightarrow> failure + napi_value" where
  "GetLineInfo dev info chip =
     (case chip_chip chip of
        None \<Rightarrow> Inl (Error ''Chip is closed'')
      | Some c \<Rightarrow>
          if length info < 1 \<or> \<not> IsNumber (arg info 0)
          then Inl (TypeError ''Number expected for line offset'')
          else (let off = Uint32Value (arg info 0)
                in case get_line_info dev c off of
                     Inl what \<Rightarrow> Inl (Error (''Failed to get line info: '' @ what))
                   | Inr li \<Rightarrow>
                       Inr (PlainObject
                         [(''name'', String (info_name li)),
                          (''used'', Boolean (info_used li)),
                          (''direction'', String (direction_string (info_direction li))),
                          (''activeLow'', Boolean (info_active_low li)),
                          (''consumer'',
                           String (if info_consumer li = [] then ''unused''
                                   else info_consumer li))])))"

definition GetLabel :: "device \<Rightarrow> callback_info \<Rightarrow> Chip \<Rightarrow> failure + napi_value" where
  "GetLabel dev info chip =
     (case chip_chip chip of
        None \<Rightarrow> Inl (Error ''Chip is closed'')
      | Some c \<Rightarrow>
          (case get_info dev c of
             Inl what \<Rightarrow> Inl (Error (''Failed to get chip label: '' @ what))
           | Inr chip_info \<Rightarrow> Inr (String (label chip_info))))"

section \<open>LineRequest (line_request.cpp)\<close>

text \<open>
  The constructor reads the offsets array into \<^verbatim>\<open>offsets_\<close>, stopping at the first
  element that is not a number.
\<close>

fun ArrayElements :: "napi_value \<Rightarrow> napi_value list" where
  "ArrayElements (Array xs) = xs"
| "ArrayElements v = []"

fun read_offsets :: "napi_value list \<Rightarrow> offset list \<Rightarrow> failure + offset list" where
  "read_offsets [] offsets = Inr offsets"
| "read_offsets (val # vals) offsets =
     (if \<not> IsNumber val
      then Inl (TypeError ''Offsets array must contain only numbers'')
      else read_offsets vals (offsets @ [Uint32Value val]))"

text \<open>
  The two loops of the constructor over \<^verbatim>\<open>offsets_\<close>. The first adds a default-constructed
  settings object for every offset. The second looks the offset up in the settings map,
  then offset 0, then takes \<^verbatim>\<open>settings_map.begin()\<close>; \<open>None\<close> stands for dereferencing
  \<^verbatim>\<open>begin()\<close> of an empty map.
\<close>

fun add_default_lines :: "offset list \<Rightarrow> request_builder \<Rightarrow> request_builder" where
  "add_default_lines [] builder = builder"
| "add_default_lines (off # offs) builder =
     add_default_lines offs (builder_add_line_settings off default_line_settings builder)"

fun add_configured_lines ::
  "(offset, line_settings) std_map \<Rightarrow> offset list \<Rightarrow> request_builder \<Rightarrow> request_builder option"
where
  "add_configured_lines settings_map [] builder = Some builder"
| "add_configured_lines settings_map (off # offs) builder =
     (case map_find off settings_map of
        Some settings \<Rightarrow>
          add_configured_lines settings_map offs (builder_add_line_settings off settings builder)
      | None \<Rightarrow>
          (case map_find 0 settings_map of
             Some default_settings \<Rightarrow>
               add_configured_lines settings_map offs
                 (builder_add_line_settings off default_settings builder)
           | None \<Rightarrow>
               (case map_begin settings_map of
                  Some first \<Rightarrow>
                    add_configured_lines settings_map offs
                      (builder_add_line_settings off (snd first) builder)
                | None \<Rightarrow> None)))"

text \<open>
  The body of the constructor's \<^verbatim>\<open>try\<close> block up to \<^verbatim>\<open>do_request()\<close>: the builder
  that is submitted to the device.
\<close>

definition build_request :: "LineConfig \<Rightarrow> offset list \<Rightarrow> request_builder option" where
  "build_request config offsets =
     (let builder = set_consumer ''libgpiod2-node'' prepare_request;
          settings_map = get_line_settings (GetConfig config)
      in if settings_map = []
         then Some (add_default_lines offsets (set_line_config (GetConfig config) builder))
         else add_configured_lines settings_map offsets builder)"

definition LineRequest_new :: "device \<Rightarrow> callback_info \<Rightarrow> failure + LineRequest" where
  "LineRequest_new dev info =
     (if length info < 3 \<or> \<not> IsObject (arg info 0) \<or> \<not> IsArray (arg info 1)
         \<or> \<not> IsObject (arg info 2)
      then Inl (TypeError ''Chip object, offsets array, and LineConfig object expected'')
      else
        (case arg info 0 of
           ChipObject chip \<Rightarrow>
             (case read_offsets (ArrayElements (arg info 1)) [] of
                Inl e \<Rightarrow> Inl e
              | Inr offsets \<Rightarrow>
                  (case arg info 2 of
                     LineConfigObject config \<Rightarrow>
                       (case GetChip chip of
                          None \<Rightarrow> Inl Crash
                        | Some c \<Rightarrow>
                            (case build_request config offsets of
                               None \<Rightarrow> Inl Crash
                             | Some builder \<Rightarrow>
                                 (case do_request dev c builder of
                                    Inl what \<Rightarrow>
                                      Inl (Error (''Failed to request lines: '' @ what))
                                  | Inr r \<Rightarrow>
                                      Inr \<lparr>req_chip = chip, req_config = config,
                                           req_offsets = offsets, req_request = Some r\<rparr>)))
                   | _ \<Rightarrow> Inl (TypeError ''Third argument must be a LineConfig instance'')))
         | _ \<Rightarrow> Inl (TypeError ''First argument must be a Chip instance'')))"

definition value_number :: "line_value \<Rightarrow> int" where
  "value_number v = (case v of INACTIVE \<Rightarrow> 0 | ACTIVE \<Rightarrow> 1)"

definition GetValue :: "device \<Rightarrow> callback_info \<Rightarrow> LineRequest \<Rightarrow> failure + napi_value" where
  "GetValue dev info lr =
     (if length info < 1 \<or> \<not> IsNumber (arg info 0)
      then Inl (TypeError ''Offset number expected'')
      else (let off = Uint32Value (arg info 0)
            in case req_request lr of
                 None \<Rightarrow> Inl (Error ''Line request is not active'')
               | Some r \<Rightarrow>
                   (case get_value dev r off of
                      Inl what \<Rightarrow> Inl (Error (''Failed to get value: '' @ what))
                    | Inr v \<Rightarrow> Inr (Number (value_number v)))))"

definition SetValue :: "device \<Rightarrow> callback_info \<Rightarrow> LineRequest \<Rightarrow> failure + napi_value" where
  "SetValue dev info lr =
     (if length info < 2 \<or> \<not> IsNumber (arg info 0) \<or> \<not> IsNumber (arg info 1)
      then Inl (TypeError ''Offset and value numbers expected'')
      else (let off = Uint32Value (arg info 0);
                intValue = Int32Value (arg info 1);
                v = (if intValue \<noteq> 0 then ACTIVE else INACTIVE)
            in case req_request lr of
                 None \<Rightarrow> Inl (Error ''Line request is not active'')
               | Some r \<Rightarrow>
                   (case set_value dev r off v of
                      Inl what \<Rightarrow> Inl (Error (''Failed to set value: '' @ what))
                    | Inr u \<Rightarrow> Inr Undefined)))"

definition Release :: "callback_info \<Rightarrow> LineRequest \<Rightarrow> (failure + napi_value) \<times> LineRequest" where
  "Release info lr =
     (case req_request lr of
        Some r \<Rightarrow> (Inr Undefined, lr\<lparr>req_request := None\<rparr>)
      | None \<Rightarrow> (Inr Undefined, lr))"

definition GetRequest :: "LineRequest \<Rightarrow> gpiod_line_request option" where
  "GetRequest lr = req_request lr"

section \<open>Line (line.cpp)\<close>

text \<open>
  The members of a Line: the chip, the offset, the bound LineRequest (a null
  \<^verbatim>\<open>shared_ptr\<close> is \<open>None\<close>), \<^verbatim>\<open>exported_\<close>, whether \<^verbatim>\<open>watch_thread_\<close> is joinable, the
  atomic flag \<^verbatim>\<open>watching_\<close>, and the callback held by the thread-safe function \<^verbatim>\<open>tsfn_\<close>
  (\<open>None\<close> when there is none or it has been released). \<open>line_calls\<close> is not a member:
  it lists, oldest first, the calls the object has made on threads and on thread-safe
  functions, so that starting and joining a background loop can be told apart.
\<close>

datatype thread_call = ThreadStart | NotifyAll | ThreadJoin | TsfnNew nat | TsfnRelease

record Line =
  line_chip :: Chip
  line_offset :: offset
  line_request :: "LineRequest option"
  line_exported :: bool
  line_watch_thread :: bool
  line_watching :: bool
  line_tsfn :: "nat option"
  line_calls :: "thread_call list"

definition Line_new :: "callback_info \<Rightarrow> failure + Line" where
  "Line_new info =
     (if length info < 2 \<or> \<not> IsObject (arg info 0) \<or> \<not> IsNumber (arg info 1)
      then Inl (TypeError ''Chip object and offset number expected'')
      else
        (case arg info 0 of
           ChipObject chip \<Rightarrow>
             Inr \<lparr>line_chip = chip, line_offset = Uint32Value (arg info 1),
                  line_request = None, line_exported = False, line_watch_thread = False,
                  line_watching = False, line_tsfn = None, line_calls = []\<rparr>
         | _ \<Rightarrow> Inl (TypeError ''First argument must be a Chip instance'')))"

text \<open>
  \<^verbatim>\<open>StopWatchThread\<close> acts only when \<^verbatim>\<open>watching_\<close> is set: it clears the flag, joins
  the thread if it is joinable and releases the thread-safe function.
\<close>

definition StopWatchThread :: "Line \<Rightarrow> Line" where
  "StopWatchThread l =
     (if line_watching l
      then (let l1 = l\<lparr>line_watching := False\<rparr>;
                l2 = (if line_watch_thread l1
                      then l1\<lparr>line_watch_thread := False,
                              line_calls := line_calls l1 @ [NotifyAll, ThreadJoin]\<rparr>
                      else l1)
            in l2\<lparr>line_tsfn := None, line_calls := line_calls l2 @ [TsfnRelease]\<rparr>)
      else l)"


definition Line_GetValue :: "device \<Rightarrow> callback_info \<Rightarrow> Line \<Rightarrow> failure + napi_value" where
  "Line_GetValue dev info l =
     (case line_request l of
        None \<Rightarrow> Inl (Error ''Line is not exported'')
      | Some lr \<Rightarrow>
          if \<not> line_exported l
          then Inl (Error ''Line is not exported'')
          else (case GetRequest lr of
                  None \<Rightarrow> Inl Crash
                | Some r \<Rightarrow>
                    (case get_value dev r (line_offset l) of
                       Inl what \<Rightarrow> Inl (Error (''Failed to get line value: '' @ what))
                     | Inr v \<Rightarrow> Inr (Number (value_number v)))))"

definition Line_SetValue :: "device \<Rightarrow> callback_info \<Rightarrow> Line \<Rightarrow> failure + napi_value" where
  "Line_SetValue dev info l =
     (if length info < 1 \<or> \<not> IsNumber (arg info 0)
      then Inl (TypeError ''Value number expected'')
      else
        (case line_request l of
           None \<Rightarrow> Inl (Error ''Line is not exported'')
         | Some lr \<Rightarrow>
             if \<not> line_exported l
             then Inl (Error ''Line is not exported'')
             else (let intValue = Int32Value (arg info 0);
                       v = (if intValue \<noteq> 0 then ACTIVE else INACTIVE)
                   in case GetRequest lr of
                        None \<Rightarrow> Inl Crash
                      | Some r \<Rightarrow>
                          (case set_value dev r (line_offset l) v of
                             Inl what \<Rightarrow> Inl (Error (''Failed to set line value: '' @ what))
                           | Inr u \<Rightarrow> Inr Undefined))))"

definition Export :: "callback_info \<Rightarrow> Line \<Rightarrow> (failure + napi_value) \<times> Line" where
  "Export info l =
     (if length info < 1 \<or> \<not> IsObject (arg info 0)
      then (Inl (TypeError ''LineRequest object expected''), l)
      else
        (case arg info 0 of
           LineRequestObject lr \<Rightarrow>
             (let l1 = (if line_exported l
                        then l\<lparr>line_request := None, line_exported := False\<rparr>
                        else l)
              in (Inr Undefined, l1\<lparr>line_request := Some lr, line_exported := True\<rparr>))
         | _ \<Rightarrow> (Inl (TypeError ''Argument must be a LineRequest instance''), l)))"

definition Unexport :: "callback_info \<Rightarrow> Line \<Rightarrow> (failure + napi_value) \<times> Line" where
  "Unexport info l =
     (let l1 = StopWatchThread l
      in if line_exported l1
         then (Inr Undefined, l1\<lparr>line_request := None, line_exported := False\<rparr>)
         else (Inr Undefined, l1))"

text \<open>
  \<^verbatim>\<open>Watch\<close> checks the callback and the export, stops an existing watch thread, makes
  a new thread-safe function for the callback, sets \<^verbatim>\<open>watching_\<close> and move-assigns a new
  thread to \<^verbatim>\<open>watch_thread_\<close>; move-assigning to a \<^verbatim>\<open>std::thread\<close> that is still
  joinable calls \<^verbatim>\<open>std::terminate\<close>.
\<close>

definition Watch :: "callback_info \<Rightarrow> Line \<Rightarrow> (failure + napi_value) \<times> Line" where
  "Watch info l =
     (if length info < 1 \<or> \<not> IsFunction (arg info 0)
      then (Inl (TypeError ''Callback function expected''), l)
      else if \<not> line_exported l \<or> line_request l = None
      then (Inl (Error ''Line is not exported''), l)
      else
        (let l1 = StopWatchThread l
         in case arg info 0 of
              Function callback \<Rightarrow>
                (let l2 = l1\<lparr>line_tsfn := Some callback,
                             line_calls := line_calls l1 @ [TsfnNew callback]\<rparr>;
                     l3 = l2\<lparr>line_watching := True\<rparr>
                 in if line_watch_thread l3
                    then (Inl Crash, l3)
                    else (Inr Undefined,
                          l3\<lparr>line_watch_thread := True,
                             line_calls := line_calls l3 @ [ThreadStart]\<rparr>))
            | _ \<Rightarrow> (Inl (TypeError ''Callback function expected''), l)))"

definition Unwatch :: "callback_info \<Rightarrow> Line \<Rightarrow> (failure + napi_value) \<times> Line" where
  "Unwatch info l = (Inr Undefined, StopWatchThread l)"

text \<open>
  The finalizer \<^verbatim>\<open>Watch\<close> gives to the thread-safe function. It runs on the JavaScript
  thread when the function is destroyed.
\<close>

definition tsfn_finalizer :: "Line \<Rightarrow> Line" where
  "tsfn_finalizer l = l\<lparr>line_watching := False, line_calls := line_calls l @ [NotifyAll]\<rparr>"

subsection \<open>The watch thread\<close>

text \<open>
  The thread runs beside the JavaScript thread. What it meets in one pass through the
  loop body is an \<open>iteration\<close>: the outcome of \<^verbatim>\<open>wait_edge_events\<close> (an exception text, or
  whether an event is available), the outcome of \<^verbatim>\<open>read_edge_events\<close> if it gets there (an
  exception text, or the type of the event read into the buffer), and whether and when
  another thread cleared \<^verbatim>\<open>watching_\<close> during the pass: before the first read of the flag
  that follows the wait, or after it. The thread reports by \<^verbatim>\<open>tsfn_.BlockingCall\<close>; the
  calls it makes are listed oldest first. A list of iterations that ends while the flag
  is still set leaves the loop running: the result is \<open>None\<close>.
\<close>

datatype edge_event_type = RISING_EDGE | FALLING_EDGE

datatype blocking_call = DeliverValue int | DeliverError string

datatype stop_point = NoStop | StopDuringWait | StopAfterWait

record iteration =
  wait_edge_events :: "string + bool"
  read_edge_events :: "string + edge_event_type"
  stop_request :: stop_point

fun watch_loop ::
  "iteration list \<Rightarrow> bool \<Rightarrow> blocking_call list \<Rightarrow> (bool \<times> blocking_call list) option"
where
  "watch_loop its False calls = Some (False, calls)"
| "watch_loop [] True calls = None"
| "watch_loop (it # its) True calls =
     (case wait_edge_events it of
        Inl what \<Rightarrow>
          if stop_request it \<noteq> StopDuringWait
          then watch_loop its False (calls @ [DeliverError what])
          else watch_loop its False calls
      | Inr event_available \<Rightarrow>
          if stop_request it \<noteq> StopDuringWait \<and> event_available
          then (case read_edge_events it of
                  Inl what \<Rightarrow>
                    if stop_request it = NoStop
                    then watch_loop its False (calls @ [DeliverError what])
                    else watch_loop its False calls
                | Inr event_type \<Rightarrow>
                    watch_loop its (stop_request it = NoStop)
                      (calls @ [DeliverValue (if event_type = RISING_EDGE then 1 else 0)]))
          else watch_loop its (stop_request it = NoStop) calls)"

text \<open>
  \<^verbatim>\<open>WatchThread\<close> returns at once when the line has no request or is not exported, and
  when constructing the event buffer throws (the outer \<^verbatim>\<open>catch (...)\<close>). With a released
  LineRequest the pointer it loops on is null, and the first pass dereferences it.
\<close>

record thread_env =
  buffer_throws :: bool
  iterations :: "iteration list"

definition WatchThread ::
  "Line \<Rightarrow> thread_env \<Rightarrow> (failure + bool \<times> blocking_call list) option" where
  "WatchThread l env =
     (case line_request l of
        None \<Rightarrow> Some (Inr (line_watching l, []))
      | Some lr \<Rightarrow>
          if \<not> line_exported l then Some (Inr (line_watching l, []))
          else if buffer_throws env then Some (Inr (line_watching l, []))
          else (case GetRequest lr of
                  None \<Rightarrow>
                    if line_watching l then Some (Inl Crash) else Some (Inr (False, []))
                | Some request \<Rightarrow>
                    map_option Inr (watch_loop (iterations env) (line_watching l) [])))"

subsection \<open>The thread-safe function and the JavaScript thread\<close>

text \<open>
  \<^verbatim>\<open>tsfn_\<close> is a Node-API thread-safe function, made by \<^verbatim>\<open>Watch\<close> with an unlimited
  queue and a thread count of one. It is modelled as Node-API documents it: a call from
  a thread is put on the queue and does not wait; the event loop of the JavaScript
  thread takes the calls from the queue, one at a time and oldest first, and runs the
  JavaScript callback on each; once every thread has released the function no call is
  accepted any more, the queue is emptied, and then the function is destroyed and its
  finalizer runs. The JavaScript thread does one thing at a time: while a method of a
  Line runs, nothing is taken from the queue.

  A \<open>js_world\<close> is a Line with the thread-safe function it holds and the calls of the
  JavaScript callback made so far, oldest first.
\<close>

record js_world =
  world_line :: Line
  world_queue :: "blocking_call list"
  world_threads :: nat
  world_destroyed :: bool
  world_delivered :: "blocking_call list"

definition tsfn_BlockingCall :: "blocking_call \<Rightarrow> js_world \<Rightarrow> js_world" where
  "tsfn_BlockingCall c w =
     (if world_threads w = 0 then w else w\<lparr>world_queue := world_queue w @ [c]\<rparr>)"

definition tsfn_Release :: "js_world \<Rightarrow> js_world" where
  "tsfn_Release w = w\<lparr>world_threads := world_threads w - 1\<rparr>"

text \<open>One turn of the event loop for this function.\<close>

definition tsfn_dispatch :: "js_world \<Rightarrow> js_world" where
  "tsfn_dispatch w =
     (case world_queue w of
        c # queue \<Rightarrow> w\<lparr>world_queue := queue, world_delivered := world_delivered w @ [c]\<rparr>
      | [] \<Rightarrow>
          if world_threads w = 0 \<and> \<not> world_destroyed w
          then w\<lparr>world_destroyed := True, world_line := tsfn_finalizer (world_line w)\<rparr>
          else w)"

fun event_loop :: "nat \<Rightarrow> js_world \<Rightarrow> js_world" where
  "event_loop 0 w = w"
| "event_loop (Suc n) w = event_loop n (tsfn_dispatch w)"

text \<open>
  \<^verbatim>\<open>unwatch\<close> called on the JavaScript thread while the watch thread is in a pass of its
  loop. \<^verbatim>\<open>StopWatchThread\<close> clears the flag and joins: the call returns only when the
  thread has returned from its loop, and what the thread reports until then is on the
  queue before \<^verbatim>\<open>tsfn_.Release()\<close> is called. The pass says when, for the thread, the flag
  was cleared. \<open>None\<close> is a join that does not return.
\<close>

definition Unwatch_while_running ::
  "iteration \<Rightarrow> callback_info \<Rightarrow> js_world \<Rightarrow> ((failure + napi_value) \<times> js_world) option"
where
  "Unwatch_while_running pass info w =
     (let l = world_line w
      in if line_watching l \<and> line_watch_thread l
         then (case watch_loop [pass] True [] of
                 None \<Rightarrow> None
               | Some (flag, calls) \<Rightarrow>
                   Some (fst (Unwatch info l),
                         (tsfn_Release (fold tsfn_BlockingCall calls w))
                           \<lparr>world_line := snd (Unwatch info l)\<rparr>))
         else Some (fst (Unwatch info l),
                    (if line_watching l then tsfn_Release w else w)
                      \<lparr>world_line := snd (Unwatch info l)\<rparr>))"

section \<open>Notions used in the properties\<close>

text \<open>
  The settings the second loop of the constructor adds for one offset, in the order of
  its three lookups.
\<close>

definition configured_settings ::
  "(offset, line_settings) std_map \<Rightarrow> offset \<Rightarrow> line_settings option" where
  "configured_settings m off =
     (case map_find off m of
        Some s \<Rightarrow> Some s
      | None \<Rightarrow> (case map_find 0 m of
                   Some s0 \<Rightarrow> Some s0
                 | None \<Rightarrow> map_option snd (map_begin m)))"

text \<open>
  The resolution rule in words: default settings when nothing is configured; otherwise
  the offset's own settings, else those of offset 0, else those of the smallest
  configured offset.
\<close>

definition resolved_settings ::
  "(offset, line_settings) std_map \<Rightarrow> offset \<Rightarrow> line_settings option" where
  "resolved_settings m off =
     (if m = [] then Some default_line_settings
      else case map_find off m of
             Some own \<Rightarrow> Some own
           | None \<Rightarrow>
               (case map_find 0 m of
                  Some of_zero \<Rightarrow> Some of_zero
                | None \<Rightarrow> map_find (Min (set (map_keys m))) m))"

text \<open>
  The LineConfig objects a JavaScript program can hold: a new one, and what a registered
  method leaves of one, whatever its arguments and whether or not it throws.
\<close>

inductive constructed :: "LineConfig \<Rightarrow> bool" where
  constructed_new: "constructed LineConfig_new"
| constructed_call:
    "constructed lc \<Longrightarrow> (name, call) \<in> set LineConfig_methods \<Longrightarrow>
     constructed (snd (call args lc))"

text \<open>
  What holds of all of them: the line configuration is in key order, as the
  \<^verbatim>\<open>std::map\<close> it stands for is, and the settings map has the same entries.
\<close>

definition ordered_config :: "LineConfig \<Rightarrow> bool" where
  "ordered_config lc = (ordered_map (cfg_config lc) \<and> cfg_settings_map lc = cfg_config lc)"


text \<open>
  The exception a pass through the loop body meets from the device, if any, and the
  values of the edge events that a run of passes reads.
\<close>

definition device_error :: "iteration \<Rightarrow> string option" where
  "device_error it =
     (case wait_edge_events it of
        Inl what \<Rightarrow> Some what
      | Inr event_available \<Rightarrow>
          if event_available
          then (case read_edge_events it of Inl what \<Rightarrow> Some what | Inr t \<Rightarrow> None)
          else None)"

text \<open>
  The exception of a pass that the \<^verbatim>\<open>catch\<close> block sees with \<^verbatim>\<open>watching_\<close> still set:
  the wait threw and the flag was not cleared during the wait, or the wait reported an
  event, the read threw and the flag was not cleared in the pass at all.
\<close>

definition caught_while_watching :: "iteration \<Rightarrow> string option" where
  "caught_while_watching it =
     (case wait_edge_events it of
        Inl what \<Rightarrow> if stop_request it = StopDuringWait then None else Some what
      | Inr event_available \<Rightarrow>
          if event_available \<and> stop_request it = NoStop
          then (case read_edge_events it of Inl what \<Rightarrow> Some what | Inr t \<Rightarrow> None)
          else None)"

fun edge_values :: "iteration list \<Rightarrow> int list" where
  "edge_values [] = []"
| "edge_values (it # its) =
     (case wait_edge_events it of
        Inl what \<Rightarrow> []
      | Inr event_available \<Rightarrow>
          if event_available
          then (case read_edge_events it of
                  Inl what \<Rightarrow> []
                | Inr t \<Rightarrow> [if t = RISING_EDGE then 1 else 0])
          else [])
     @ edge_values its"

subsection \<open>Concrete objects\<close>

text \<open>
  A device to run the wrapper on: one chip of eight lines that grants every request,
  reads back the configured output value and, as the kernel does, refuses to set a line
  that was not requested as an output.
\<close>

definition test_device :: device where
  "test_device =
     \<lparr>open_chip = (\<lambda>name. if name = ''gpiochip0'' then Inr \<lparr>chip_path = name\<rparr>
                          else Inl ''No such file or directory''),
      get_info = (\<lambda>c. Inr \<lparr>num_lines = 8, label = ''test-bank''\<rparr>),
      get_line_info = (\<lambda>c off. if off < 8
                          then Inr \<lparr>info_name = [], info_used = False,
                                    info_direction = INPUT, info_active_low = False,
                                    info_consumer = []\<rparr>
                          else Inl ''Invalid argument''),
      do_request = (\<lambda>c builder. Inr \<lparr>granted_consumer = consumer builder,
                                       granted_lines = line_cfg builder\<rparr>),
      get_value = (\<lambda>r off. case map_find off (granted_lines r) of
                             None \<Rightarrow> Inl ''Invalid argument''
                           | Some s \<Rightarrow> Inr (output_value s)),
      set_value = (\<lambda>r off v. case map_find off (granted_lines r) of
                               None \<Rightarrow> Inl ''Invalid argument''
                             | Some s \<Rightarrow> if direction s = OUTPUT then Inr ()
                                        else Inl ''Operation not permitted'')\<rparr>"

definition test_chip :: Chip where
  "test_chip = \<lparr>chip_chip = Some \<lparr>chip_path = ''gpiochip0''\<rparr>, chip_name = ''gpiochip0''\<rparr>"

text \<open>
  Offset 3 configured as an input, the request granted for it, a Line of offset 3 that
  exports this request, and the same Line after one call of \<^verbatim>\<open>watch\<close>.
\<close>

definition config_3_input :: LineConfig where
  "config_3_input =
     snd (SetDirection [String ''input''] (snd (SetOffset [Number 3] LineConfig_new)))"

definition input_line_3 :: LineRequest where
  "input_line_3 =
     \<lparr>req_chip = test_chip, req_config = config_3_input, req_offsets = [3],
      req_request =
        Some \<lparr>granted_consumer = ''libgpiod2-node'',
              granted_lines = [(3, default_line_settings\<lparr>direction := INPUT\<rparr>)]\<rparr>\<rparr>"

definition exported_line_3 :: Line where
  "exported_line_3 =
     \<lparr>line_chip = test_chip, line_offset = 3, line_request = Some input_line_3,
      line_exported = True, line_watch_thread = False, line_watching = False,
      line_tsfn = None, line_calls = []\<rparr>"

definition watching_line_3 :: Line where
  "watching_line_3 = snd (Watch [Function 1] exported_line_3)"

text \<open>
  Three passes of the watch loop: a rising edge, a timeout, and a wait that throws.
\<close>

definition rising_pass :: iteration where
  "rising_pass = \<lparr>wait_edge_events = Inr True, read_edge_events = Inr RISING_EDGE,
                  stop_request = NoStop\<rparr>"

definition timeout_pass :: iteration where
  "timeout_pass = \<lparr>wait_edge_events = Inr False, read_edge_events = Inr FALLING_EDGE,
                   stop_request = NoStop\<rparr>"

definition failing_pass :: iteration where
  "failing_pass = \<lparr>wait_edge_events = Inl ''Input/output error'',
                   read_edge_events = Inr FALLING_EDGE, stop_request = NoStop\<rparr>"

text \<open>
  A pass in which a rising edge is available and the flag is cleared after the thread
  has checked it, and the watching Line with its new thread-safe function.
\<close>

definition stopping_pass :: iteration where
  "stopping_pass = \<lparr>wait_edge_events = Inr True, read_edge_events = Inr RISING_EDGE,
                    stop_request = StopAfterWait\<rparr>"

definition watching_world :: js_world where
  "watching_world =
     \<lparr>world_line = watching_line_3, world_queue = [], world_threads = 1,
      world_destroyed = False, world_delivered = []\<rparr>"

text \<open>
  A configuration in which offset 5 is configured first (as an output) and offset 2
  second (as an input).
\<close>

definition configured_5_then_2 :: LineConfig where
  "configured_5_then_2 =
     snd (SetDirection [String ''input'']
       (snd (SetOffset [Number 2]
         (snd (SetDirection [String ''output'']
           (snd (SetOffset [Number 5] LineConfig_new)))))))"

section \<open>Properties\<close>

subsection \<open>The map operations\<close>

lemma map_find_assign:
  "map_find k (map_assign k' v m) = (if k = k' then Some v else map_find k m)"
  by (induction m) (auto simp: map_find_def)

lemma map_keys_Nil: "map_keys [] = []"
  by (simp add: map_keys_def)

lemma map_keys_assign:
  "set (map_keys (map_assign k v m)) = insert k (set (map_keys m))"
proof (induction m)
  case Nil
  show ?case by (simp add: map_keys_def)
next
  case (Cons e m)
  obtain k' v' where e: "e = (k', v')" by (cases e)
  have "set (map fst (map_assign k v m)) = insert k (set (map fst m))"
    using Cons.IH by (simp add: map_keys_def)
  then show ?case by (auto simp: map_keys_def e)
qed

text \<open>Assignment keeps the keys in increasing order, as a \<^verbatim>\<open>std::map\<close> does.\<close>

lemma ordered_map_assign:
  "ordered_map m \<Longrightarrow> ordered_map (map_assign k v m)"
proof (induction m)
  case Nil
  then show ?case by (simp add: ordered_map_def map_keys_def)
next
  case (Cons e m)
  obtain k' v' where e: "e = (k', v')" by (cases e)
  have tail: "ordered_map m" using Cons.prems by (simp add: ordered_map_def map_keys_def)
  have above: "\<forall>x \<in> set (map_keys m). k' < x"
    using Cons.prems by (simp add: ordered_map_def map_keys_def e)
  show ?case
  proof (cases "k < k'")
    case True
    then show ?thesis using Cons.prems above
      by (auto simp: ordered_map_def map_keys_def e)
  next
    case False
    show ?thesis
    proof (cases "k = k'")
      case True
      then show ?thesis using Cons.prems by (simp add: ordered_map_def map_keys_def e)
    next
      case neq: False
      have "k' < k" using False neq by simp
      moreover have "ordered_map (map_assign k v m)" using Cons.IH tail by simp
      ultimately show ?thesis using False neq above map_keys_assign [of k v m]
        by (auto simp: ordered_map_def e map_keys_def)
    qed
  qed
qed

text \<open>\<^verbatim>\<open>begin()\<close> of an ordered map is the entry of the smallest key.\<close>

lemma map_begin_Min:
  assumes "ordered_map m" "m \<noteq> []"
  shows "map_option snd (map_begin m) = map_find (Min (set (map_keys m))) m"
proof -
  obtain k v rest where m: "m = (k, v) # rest" using assms(2) by (cases m) auto
  have "\<forall>x \<in> set (map_keys rest). k < x"
    using assms(1) by (simp add: ordered_map_def map_keys_def m)
  then have "Min (set (map_keys m)) = k"
    by (intro Min_eqI) (auto simp: m map_keys_def intro: less_imp_le)
  then show ?thesis by (simp add: m map_begin_def map_find_def)
qed

subsection \<open>The LineConfig objects a program can hold\<close>

text \<open>Every method of LineConfig keeps both maps in key order.\<close>

lemma ordered_config_new: "ordered_config LineConfig_new"
  by (simp add: ordered_config_def LineConfig_new_def ordered_map_def map_keys_def)

lemma ordered_config_Ensure:
  "ordered_config lc \<Longrightarrow> ordered_config (snd (EnsureSettingsForCurrentOffset lc))"
  by (simp add: ordered_config_def EnsureSettingsForCurrentOffset_def add_line_settings_def
        ordered_map_assign split: option.splits)

lemma ordered_config_store:
  "ordered_config lc \<Longrightarrow> ordered_config (store_settings s lc)"
  by (simp add: ordered_config_def store_settings_def add_line_settings_def ordered_map_assign)

lemma ordered_config_methods:
  assumes "ordered_config lc"
  shows "ordered_config (snd (SetOffset info lc))"
    and "ordered_config (snd (SetDirection info lc))"
    and "ordered_config (snd (SetEdge info lc))"
    and "ordered_config (snd (SetDrive info lc))"
    and "ordered_config (snd (SetBias info lc))"
    and "ordered_config (snd (SetActiveLow info lc))"
    and "ordered_config (snd (SetOutputValue info lc))"
    and "ordered_config (snd (SetDebouncePeriod info lc))"
proof -
  have cursor: "ordered_config (lc\<lparr>cfg_current_offset := k\<rparr>)" for k
    using assms by (simp add: ordered_config_def)
  show "ordered_config (snd (SetOffset info lc))"
  proof (cases "length info < 1 \<or> \<not> IsNumber (arg info 0)")
    case True
    then show ?thesis using assms by (simp add: SetOffset_def)
  next
    case False
    then have "snd (SetOffset info lc) =
        snd (EnsureSettingsForCurrentOffset (lc\<lparr>cfg_current_offset := Uint32Value (arg info 0)\<rparr>))"
      by (simp add: SetOffset_def Let_def split: prod.splits)
    then show ?thesis using ordered_config_Ensure [OF cursor] by simp
  qed
  show "ordered_config (snd (SetDirection info lc))"
    using assms ordered_config_Ensure [OF assms]
    by (auto simp: SetDirection_def Let_def ordered_config_store split: prod.splits)
  show "ordered_config (snd (SetEdge info lc))"
    using assms ordered_config_Ensure [OF assms]
    by (auto simp: SetEdge_def Let_def ordered_config_store split: prod.splits)
  show "ordered_config (snd (SetDrive info lc))"
    using assms ordered_config_Ensure [OF assms]
    by (auto simp: SetDrive_def Let_def ordered_config_store split: prod.splits)
  show "ordered_config (snd (SetBias info lc))"
    using assms ordered_config_Ensure [OF assms]
    by (auto simp: SetBias_def Let_def ordered_config_store split: prod.splits)
  show "ordered_config (snd (SetActiveLow info lc))"
    using assms ordered_config_Ensure [OF assms]
    by (auto simp: SetActiveLow_def Let_def ordered_config_store split: prod.splits)
  show "ordered_config (snd (SetOutputValue info lc))"
    using assms ordered_config_Ensure [OF assms]
    by (auto simp: SetOutputValue_def Let_def ordered_config_store split: prod.splits)
  show "ordered_config (snd (SetDebouncePeriod info lc))"
    using assms ordered_config_Ensure [OF assms]
    by (auto simp: SetDebouncePeriod_def Let_def ordered_config_store split: prod.splits)
qed

lemma ordered_config_constructed: "constructed lc \<Longrightarrow> ordered_config lc"
proof (induction rule: constructed.induct)
  case constructed_new
  show ?case by (rule ordered_config_new)
next
  case (constructed_call lc name call args)
  then show ?case
    using ordered_config_methods [of lc args]
    by (auto simp: LineConfig_methods_def)
qed

subsection \<open>Building a request\<close>

lemma add_default_lines_find:
  "map_find off (line_cfg (add_default_lines offs b)) =
     (if off \<in> set offs then Some default_line_settings else map_find off (line_cfg b))"
  by (induction offs arbitrary: b)
     (auto simp: builder_add_line_settings_def add_line_settings_def map_find_assign)

lemma add_default_lines_keys:
  "set (map_keys (line_cfg (add_default_lines offs b))) = set offs \<union> set (map_keys (line_cfg b))"
  by (induction offs arbitrary: b)
     (auto simp: builder_add_line_settings_def add_line_settings_def map_keys_assign)

lemma consumer_add_default_lines: "consumer (add_default_lines offs b) = consumer b"
  by (induction offs arbitrary: b) (simp_all add: builder_add_line_settings_def)

text \<open>The second loop never dereferences \<^verbatim>\<open>begin()\<close> of an empty map.\<close>

lemma add_configured_lines_total:
  "m \<noteq> [] \<Longrightarrow> \<exists>b'. add_configured_lines m offs b = Some b'"
  by (induction offs arbitrary: b)
     (auto simp: map_begin_def split: option.splits list.splits)

lemma add_configured_lines_find:
  "add_configured_lines m offs b = Some b' \<Longrightarrow>
   map_find off (line_cfg b') =
     (if off \<in> set offs then configured_settings m off else map_find off (line_cfg b))"
proof (induction offs arbitrary: b)
  case Nil
  then show ?case by simp
next
  case (Cons o1 offs)
  then show ?case
    by (auto simp: builder_add_line_settings_def add_line_settings_def map_find_assign
          configured_settings_def split: option.splits)
qed

lemma add_configured_lines_keys:
  "add_configured_lines m offs b = Some b' \<Longrightarrow>
   set (map_keys (line_cfg b')) = set offs \<union> set (map_keys (line_cfg b))"
proof (induction offs arbitrary: b)
  case Nil
  then show ?case by simp
next
  case (Cons o1 offs)
  then show ?case
    by (auto simp: builder_add_line_settings_def add_line_settings_def map_keys_assign
          split: option.splits)
qed

lemma consumer_add_configured_lines:
  "add_configured_lines m offs b = Some b' \<Longrightarrow> consumer b' = consumer b"
  by (induction offs arbitrary: b)
     (auto simp: builder_add_line_settings_def split: option.splits)

lemma configured_settings_resolved:
  "ordered_map m \<Longrightarrow> m \<noteq> [] \<Longrightarrow> configured_settings m off = resolved_settings m off"
  by (simp add: configured_settings_def resolved_settings_def map_begin_Min split: option.splits)

lemma configured_5_then_2_value:
  "configured_5_then_2 =
     \<lparr>cfg_config = [(2, default_line_settings\<lparr>direction := INPUT\<rparr>),
                     (5, default_line_settings\<lparr>direction := OUTPUT\<rparr>)],
      cfg_settings_map = [(2, default_line_settings\<lparr>direction := INPUT\<rparr>),
                           (5, default_line_settings\<lparr>direction := OUTPUT\<rparr>)],
      cfg_current_offset = 2\<rparr>"
  by (simp add: configured_5_then_2_def SetDirection_def SetOffset_def LineConfig_new_def
        EnsureSettingsForCurrentOffset_def store_settings_def add_line_settings_def
        map_find_def arg_def Let_def)

lemma build_5_then_2:
  "build_request configured_5_then_2 [2, 3, 5] =
     Some \<lparr>consumer = ''libgpiod2-node'',
           line_cfg = [(2, default_line_settings\<lparr>direction := INPUT\<rparr>),
                       (3, default_line_settings\<lparr>direction := INPUT\<rparr>),
                       (5, default_line_settings\<lparr>direction := OUTPUT\<rparr>)]\<rparr>"
  by (simp add: configured_5_then_2_value build_request_def GetConfig_def get_line_settings_def
        set_consumer_def prepare_request_def map_find_def map_begin_def
        builder_add_line_settings_def add_line_settings_def)

text \<open>
  C1 (as amended). For every LineConfig a program can hold, the constructor reaches
  \<^verbatim>\<open>do_request()\<close> with the consumer set and with exactly the requested offsets in the
  builder. Every requested offset carries default settings when the map is empty;
  otherwise its own settings if it has some, else those of offset 0 if configured, else
  those of the smallest configured offset. Where an offset stands in the sequence does
  not change the settings it gets.
\<close>

theorem build_request_resolves:
  assumes "constructed config"
  shows "\<exists>builder. build_request config offsets = Some builder
           \<and> consumer builder = ''libgpiod2-node''
           \<and> set (map_keys (line_cfg builder)) = set offsets
           \<and> (\<forall>off \<in> set offsets.
                 map_find off (line_cfg builder) =
                   resolved_settings (get_line_settings (GetConfig config)) off)"
proof (cases "get_line_settings (GetConfig config) = []")
  case True
  let ?b = "add_default_lines offsets
              (set_line_config (GetConfig config) (set_consumer ''libgpiod2-node'' prepare_request))"
  have cfg: "GetConfig config = []" using True by (simp add: get_line_settings_def)
  have "build_request config offsets = Some ?b" using True by (simp add: build_request_def)
  moreover have "consumer ?b = ''libgpiod2-node''"
    by (simp add: consumer_add_default_lines set_line_config_def set_consumer_def)
  moreover have "set (map_keys (line_cfg ?b)) = set offsets"
    by (simp add: add_default_lines_keys set_line_config_def cfg map_keys_Nil)
  moreover have "\<forall>off \<in> set offsets. map_find off (line_cfg ?b) =
      resolved_settings (get_line_settings (GetConfig config)) off"
    using True by (simp add: add_default_lines_find resolved_settings_def)
  ultimately show ?thesis by blast
next
  case False
  let ?m = "get_line_settings (GetConfig config)"
  let ?b0 = "set_consumer ''libgpiod2-node'' prepare_request"
  have ordered: "ordered_map ?m"
    using ordered_config_constructed [OF assms]
    by (simp add: ordered_config_def get_line_settings_def GetConfig_def)
  obtain b' where b': "add_configured_lines ?m offsets ?b0 = Some b'"
    using add_configured_lines_total [OF False] by blast
  have "build_request config offsets = Some b'" using False b' by (simp add: build_request_def)
  moreover have "consumer b' = ''libgpiod2-node''"
    using consumer_add_configured_lines [OF b'] by (simp add: set_consumer_def)
  moreover have "set (map_keys (line_cfg b')) = set offsets"
    using add_configured_lines_keys [OF b']
    by (simp add: set_consumer_def prepare_request_def map_keys_Nil)
  moreover have "\<forall>off \<in> set offsets. map_find off (line_cfg b') = resolved_settings ?m off"
    using add_configured_lines_find [OF b'] configured_settings_resolved [OF ordered False]
    by simp
  ultimately show ?thesis by blast
qed

theorem build_request_resolves_witness:
  "constructed configured_5_then_2
   \<and> (\<exists>builder. build_request configured_5_then_2 [2, 3, 5] = Some builder
         \<and> consumer builder = ''libgpiod2-node''
         \<and> set (map_keys (line_cfg builder)) = set [2, 3, 5]
         \<and> (\<forall>off \<in> set [2, 3, 5].
               map_find off (line_cfg builder) =
                 resolved_settings (get_line_settings (GetConfig configured_5_then_2)) off))"
proof -
  have offset: "(''setOffset'', SetOffset) \<in> set LineConfig_methods"
    and direction: "(''setDirection'', SetDirection) \<in> set LineConfig_methods"
    by (simp_all add: LineConfig_methods_def)
  have c1: "constructed (snd (SetOffset [Number 5] LineConfig_new))"
    using constructed_new offset by (rule constructed_call)
  have c2: "constructed (snd (SetDirection [String ''output'']
      (snd (SetOffset [Number 5] LineConfig_new))))"
    using c1 direction by (rule constructed_call)
  have c3: "constructed (snd (SetOffset [Number 2] (snd (SetDirection [String ''output'']
      (snd (SetOffset [Number 5] LineConfig_new))))))"
    using c2 offset by (rule constructed_call)
  have h: "constructed configured_5_then_2"
    unfolding configured_5_then_2_def using c3 direction by (rule constructed_call)
  show ?thesis using h build_request_resolves [OF h, of "[2, 3, 5]"] by blast
qed

text \<open>
  C1 as stated fails. Offset 5 is configured first and offset 2 second; in a request for
  offsets 2, 3 and 5 the unconfigured offset 3 gets the settings of offset 2, which are
  not those of the offset configured first.
\<close>

theorem first_configured_counterexample:
  "map_keys (cfg_config (snd (SetOffset [Number 5] LineConfig_new))) = [5]
   \<and> map_find 3 (cfg_config configured_5_then_2) = None
   \<and> map_find 0 (cfg_config configured_5_then_2) = None
   \<and> (case build_request configured_5_then_2 [2, 3, 5] of
        None \<Rightarrow> False
      | Some builder \<Rightarrow>
          map_find 3 (line_cfg builder) = map_find 2 (cfg_config configured_5_then_2)
          \<and> map_find 3 (line_cfg builder) \<noteq> map_find 5 (cfg_config configured_5_then_2))"
proof -
  have first: "map_keys (cfg_config (snd (SetOffset [Number 5] LineConfig_new))) = [5]"
    by (simp add: map_find_def map_keys_def SetOffset_def LineConfig_new_def
          EnsureSettingsForCurrentOffset_def arg_def add_line_settings_def Let_def)
  have differ: "default_line_settings\<lparr>direction := INPUT\<rparr>
      \<noteq> default_line_settings\<lparr>direction := OUTPUT\<rparr>"
    by (simp add: default_line_settings_def)
  show ?thesis
    using differ
    by (simp only: first build_5_then_2 option.case)
       (simp add: configured_5_then_2_value map_find_def)
qed

subsection \<open>The kinds of failure\<close>

lemma kind_of_state_errors:
  "kind_of (Error ''Chip is closed'') = Some StateError"
  "kind_of (Error ''Line is not exported'') = Some StateError"
  "kind_of (Error ''Line request is not active'') = Some StateError"
  by simp_all

lemma kind_of_wrapped: "kind_of (Error (''Failed to '' @ m)) = Some DeviceError"
  by simp

subsection \<open>The concrete objects are what the wrapper produces\<close>

lemma test_chip_opened: "Chip_new test_device [String ''gpiochip0''] = Inr test_chip"
  by (simp add: Chip_new_def arg_def test_device_def test_chip_def Let_def)

lemma input_line_3_built:
  "LineRequest_new test_device [ChipObject test_chip, Array [Number 3], LineConfigObject config_3_input]
     = Inr input_line_3"
  by (simp add: LineRequest_new_def arg_def test_chip_def GetChip_def build_request_def
        config_3_input_def SetDirection_def SetOffset_def LineConfig_new_def
        EnsureSettingsForCurrentOffset_def store_settings_def add_line_settings_def
        map_find_def Let_def GetConfig_def get_line_settings_def set_consumer_def
        prepare_request_def builder_add_line_settings_def test_device_def input_line_3_def)

lemma exported_line_3_exported:
  "Line_new [ChipObject test_chip, Number 3] = Inr l \<Longrightarrow>
   Export [LineRequestObject input_line_3] l = (Inr Undefined, exported_line_3)"
  by (auto simp: Line_new_def Export_def arg_def exported_line_3_def)

lemma watching_line_3_value:
  "watching_line_3 =
     exported_line_3\<lparr>line_watching := True, line_watch_thread := True, line_tsfn := Some 1,
       line_calls := [TsfnNew 1, ThreadStart]\<rparr>"
  by (simp add: watching_line_3_def Watch_def arg_def exported_line_3_def StopWatchThread_def)

subsection \<open>LineConfig\<close>

lemma Ensure_absent:
  "map_find (cfg_current_offset lc) (cfg_settings_map lc) = None \<Longrightarrow>
   EnsureSettingsForCurrentOffset lc =
     (default_line_settings,
      lc\<lparr>cfg_settings_map :=
            map_assign (cfg_current_offset lc) default_line_settings (cfg_settings_map lc),
         cfg_config :=
            add_line_settings (cfg_current_offset lc) default_line_settings (cfg_config lc)\<rparr>)"
  by (simp add: EnsureSettingsForCurrentOffset_def)

text \<open>
  What \<^verbatim>\<open>EnsureSettingsForCurrentOffset\<close> leaves behind: the cursor where it was; the
  object unchanged if the current offset had an entry; a default entry for the current
  offset in both maps otherwise.
\<close>

lemma Ensure_effect:
  "cfg_current_offset (snd (EnsureSettingsForCurrentOffset lc)) = cfg_current_offset lc
   \<and> (\<forall>x. map_find (cfg_current_offset lc) (cfg_settings_map lc) = Some x
          \<longrightarrow> snd (EnsureSettingsForCurrentOffset lc) = lc)
   \<and> (map_find (cfg_current_offset lc) (cfg_settings_map lc) = None
        \<longrightarrow> cfg_settings_map (snd (EnsureSettingsForCurrentOffset lc)) =
              map_assign (cfg_current_offset lc) default_line_settings (cfg_settings_map lc)
          \<and> cfg_config (snd (EnsureSettingsForCurrentOffset lc)) =
              add_line_settings (cfg_current_offset lc) default_line_settings (cfg_config lc))"
  by (simp add: EnsureSettingsForCurrentOffset_def split: option.splits)

lemma SetDirection_invalid:
  "s \<noteq> ''input'' \<Longrightarrow> s \<noteq> ''output'' \<Longrightarrow>
   SetDirection (String s # rest) lc =
     (Inl (TypeError (''Invalid direction: must be 'input' or 'output'' @ [CHR 0x27])),
      snd (EnsureSettingsForCurrentOffset lc))"
  by (simp add: SetDirection_def arg_def split: prod.splits)

lemma SetEdge_invalid:
  "s \<noteq> ''none'' \<Longrightarrow> s \<noteq> ''rising'' \<Longrightarrow> s \<noteq> ''falling'' \<Longrightarrow> s \<noteq> ''both'' \<Longrightarrow>
   SetEdge (String s # rest) lc =
     (Inl (TypeError
        (''Invalid edge: must be 'none', 'rising', 'falling', or 'both'' @ [CHR 0x27])),
      snd (EnsureSettingsForCurrentOffset lc))"
  by (simp add: SetEdge_def arg_def split: prod.splits)

lemma SetDrive_invalid:
  "s \<noteq> ''push_pull'' \<Longrightarrow> s \<noteq> ''open_drain'' \<Longrightarrow> s \<noteq> ''open_source'' \<Longrightarrow>
   SetDrive (String s # rest) lc =
     (Inl (TypeError
        (''Invalid drive: must be 'push_pull', 'open_drain', or 'open_source'' @ [CHR 0x27])),
      snd (EnsureSettingsForCurrentOffset lc))"
  by (simp add: SetDrive_def arg_def split: prod.splits)

lemma SetBias_invalid:
  "s \<noteq> ''unknown'' \<Longrightarrow> s \<noteq> ''disabled'' \<Longrightarrow> s \<noteq> ''pull_up'' \<Longrightarrow> s \<noteq> ''pull_down'' \<Longrightarrow>
   SetBias (String s # rest) lc =
     (Inl (TypeError
        (''Invalid bias: must be 'unknown', 'disabled', 'pull_up', or 'pull_down'' @ [CHR 0x27])),
      snd (EnsureSettingsForCurrentOffset lc))"
  by (simp add: SetBias_def arg_def split: prod.splits)

text \<open>
  C3 (as amended). For each of the four setters that take an enum string (direction,
  edge, drive, bias) and every string the setter does not recognize, the call fails with
  a ValidationError and changes no existing settings: the cursor stays; if the current
  offset has an entry, the object is left exactly as it was; if it has none, a
  default-initialized entry for the current offset has been created, in the settings map
  and in the line configuration, before the string is rejected.
\<close>

theorem unrecognized_string_rejected:
  assumes "(setter, accepted) \<in>
             {(SetDirection, [''input'', ''output'']),
              (SetEdge, [''none'', ''rising'', ''falling'', ''both'']),
              (SetDrive, [''push_pull'', ''open_drain'', ''open_source'']),
              (SetBias, [''unknown'', ''disabled'', ''pull_up'', ''pull_down''])}"
    and "s \<notin> set accepted"
  shows "(\<exists>msg. fst (setter (String s # rest) lc) = Inl (TypeError msg)
             \<and> kind_of (TypeError msg) = Some ValidationError)
         \<and> cfg_current_offset (snd (setter (String s # rest) lc)) = cfg_current_offset lc
         \<and> (\<forall>x. map_find (cfg_current_offset lc) (cfg_settings_map lc) = Some x
                \<longrightarrow> snd (setter (String s # rest) lc) = lc)
         \<and> (map_find (cfg_current_offset lc) (cfg_settings_map lc) = None
              \<longrightarrow> cfg_settings_map (snd (setter (String s # rest) lc)) =
                    map_assign (cfg_current_offset lc) default_line_settings (cfg_settings_map lc)
                \<and> cfg_config (snd (setter (String s # rest) lc)) =
                    add_line_settings (cfg_current_offset lc) default_line_settings (cfg_config lc))"
proof -
  have "\<exists>msg. setter (String s # rest) lc =
          (Inl (TypeError msg), snd (EnsureSettingsForCurrentOffset lc))"
    using assms SetDirection_invalid [of s rest lc] SetEdge_invalid [of s rest lc]
      SetDrive_invalid [of s rest lc] SetBias_invalid [of s rest lc]
    by auto
  then obtain msg where call:
    "setter (String s # rest) lc = (Inl (TypeError msg), snd (EnsureSettingsForCurrentOffset lc))"
    by blast
  show ?thesis
    using Ensure_effect [of lc] by (simp add: call)
qed

theorem unrecognized_string_rejected_witness:
  "(\<exists>msg. fst (SetDrive [String ''sideways''] LineConfig_new) = Inl (TypeError msg)
             \<and> kind_of (TypeError msg) = Some ValidationError)
   \<and> cfg_current_offset (snd (SetDrive [String ''sideways''] LineConfig_new)) = 0
   \<and> cfg_settings_map (snd (SetDrive [String ''sideways''] LineConfig_new))
       = [(0, default_line_settings)]
   \<and> cfg_config (snd (SetDrive [String ''sideways''] LineConfig_new))
       = [(0, default_line_settings)]"
proof -
  have mem: "(SetDrive, [''push_pull'', ''open_drain'', ''open_source'']) \<in>
             {(SetDirection, [''input'', ''output'']),
              (SetEdge, [''none'', ''rising'', ''falling'', ''both'']),
              (SetDrive, [''push_pull'', ''open_drain'', ''open_source'']),
              (SetBias, [''unknown'', ''disabled'', ''pull_up'', ''pull_down''])}"
    by simp
  have new: "''sideways'' \<notin> set [''push_pull'', ''open_drain'', ''open_source'']"
    by simp
  have absent: "map_find (cfg_current_offset LineConfig_new) (cfg_settings_map LineConfig_new) = None"
    by (simp add: LineConfig_new_def map_find_def)
  show ?thesis
    using unrecognized_string_rejected [OF mem new, of "[]" LineConfig_new] absent
    by (simp add: LineConfig_new_def add_line_settings_def)
qed

text \<open>
  C3 as stated fails. On a new LineConfig the call \<^verbatim>\<open>setDrive("sideways")\<close> throws the
  TypeError and leaves a settings entry for offset 0 that was not there before.
\<close>

theorem rejected_string_counterexample:
  "SetDrive [String ''sideways''] LineConfig_new =
     (Inl (TypeError
        (''Invalid drive: must be 'push_pull', 'open_drain', or 'open_source'' @ [CHR 0x27])),
      \<lparr>cfg_config = [(0, default_line_settings)],
       cfg_settings_map = [(0, default_line_settings)],
       cfg_current_offset = 0\<rparr>)
   \<and> snd (SetDrive [String ''sideways''] LineConfig_new) \<noteq> LineConfig_new
   \<and> map_find 0 (cfg_settings_map LineConfig_new) = None"
  by (simp add: SetDrive_def arg_def EnsureSettingsForCurrentOffset_def LineConfig_new_def
        map_find_def add_line_settings_def Let_def)

text \<open>
  C9. On every LineConfig a program can hold and for every offset k, the call
  \<^verbatim>\<open>setOffset(k)\<close> alone succeeds and leaves an entry for k in the settings map and in the
  line configuration; if k had no entry, the entry is the default-initialized one. The
  mapping a later build reads is therefore not empty, and the build runs the per-offset
  loop with its three lookups: every requested offset gets what that lookup gives, and
  if nothing was configured before the call, every requested offset gets the defaults
  stored for k, as settings of a configured offset.
\<close>

theorem select_offset_alone:
  assumes "constructed lc"
  shows "fst (SetOffset (Number k # rest) lc) = Inr Undefined
         \<and> cfg_current_offset (snd (SetOffset (Number k # rest) lc)) = word_of_int k
         \<and> (map_find (word_of_int k) (cfg_settings_map lc) = None \<longrightarrow>
               map_find (word_of_int k) (cfg_settings_map (snd (SetOffset (Number k # rest) lc)))
                 = Some default_line_settings
               \<and> map_find (word_of_int k)
                     (get_line_settings (GetConfig (snd (SetOffset (Number k # rest) lc))))
                 = Some default_line_settings)
         \<and> map_find (word_of_int k)
               (get_line_settings (GetConfig (snd (SetOffset (Number k # rest) lc)))) \<noteq> None
         \<and> get_line_settings (GetConfig (snd (SetOffset (Number k # rest) lc))) \<noteq> []
         \<and> build_request (snd (SetOffset (Number k # rest) lc)) offsets =
             add_configured_lines
               (get_line_settings (GetConfig (snd (SetOffset (Number k # rest) lc)))) offsets
               (set_consumer ''libgpiod2-node'' prepare_request)
         \<and> (\<exists>builder. build_request (snd (SetOffset (Number k # rest) lc)) offsets = Some builder
               \<and> (\<forall>off \<in> set offsets.
                     map_find off (line_cfg builder) =
                       configured_settings
                         (get_line_settings (GetConfig (snd (SetOffset (Number k # rest) lc)))) off
                     \<and> (get_line_settings (GetConfig lc) = []
                          \<longrightarrow> map_find off (line_cfg builder) = Some default_line_settings)))"
proof -
  let ?k = "word_of_int k :: offset"
  let ?lc' = "snd (SetOffset (Number k # rest) lc)"
  let ?m = "get_line_settings (GetConfig ?lc')"
  have same: "cfg_settings_map lc = cfg_config lc"
    using ordered_config_constructed [OF assms] by (simp add: ordered_config_def)
  have ok: "fst (SetOffset (Number k # rest) lc) = Inr Undefined"
    by (simp add: SetOffset_def arg_def Let_def split: prod.splits)
  have cursor: "cfg_current_offset ?lc' = ?k"
    by (simp add: SetOffset_def arg_def Let_def EnsureSettingsForCurrentOffset_def
          split: prod.splits option.splits)
  have new_entry: "map_find ?k (cfg_settings_map ?lc') = Some default_line_settings
      \<and> ?m = map_assign ?k default_line_settings (cfg_config lc)"
    if absent: "map_find ?k (cfg_settings_map lc) = None"
  proof -
    have "map_find (cfg_current_offset (lc\<lparr>cfg_current_offset := ?k\<rparr>))
        (cfg_settings_map (lc\<lparr>cfg_current_offset := ?k\<rparr>)) = None"
      using absent by simp
    then have "SetOffset (Number k # rest) lc =
        (Inr Undefined,
         lc\<lparr>cfg_current_offset := ?k,
            cfg_settings_map := map_assign ?k default_line_settings (cfg_settings_map lc),
            cfg_config := add_line_settings ?k default_line_settings (cfg_config lc)\<rparr>)"
      by (simp add: SetOffset_def arg_def Ensure_absent)
    then show ?thesis
      by (simp add: map_find_assign get_line_settings_def GetConfig_def add_line_settings_def)
  qed
  have old_entry: "?m = cfg_config lc \<and> map_find ?k ?m = Some s"
    if present: "map_find ?k (cfg_settings_map lc) = Some s" for s
  proof -
    have "EnsureSettingsForCurrentOffset (lc\<lparr>cfg_current_offset := ?k\<rparr>)
        = (s, lc\<lparr>cfg_current_offset := ?k\<rparr>)"
      using present by (simp add: EnsureSettingsForCurrentOffset_def)
    then have "?lc' = lc\<lparr>cfg_current_offset := ?k\<rparr>"
      by (simp add: SetOffset_def arg_def)
    then show ?thesis
      using present same by (simp add: get_line_settings_def GetConfig_def)
  qed
  have own: "map_find ?k ?m \<noteq> None"
  proof (cases "map_find ?k (cfg_settings_map lc)")
    case None
    then show ?thesis using new_entry by (simp add: map_find_assign)
  next
    case (Some s)
    then have "map_find ?k ?m = Some s" using old_entry by blast
    then show ?thesis by simp
  qed
  have nonempty: "?m \<noteq> []"
    using own by (auto simp: map_find_def)
  have path: "build_request ?lc' offsets =
      add_configured_lines ?m offsets (set_consumer ''libgpiod2-node'' prepare_request)"
    using nonempty by (simp add: build_request_def)
  obtain builder where builder:
    "add_configured_lines ?m offsets (set_consumer ''libgpiod2-node'' prepare_request)
       = Some builder"
    using add_configured_lines_total [OF nonempty] by blast
  have found: "\<forall>off \<in> set offsets. map_find off (line_cfg builder) = configured_settings ?m off"
    using add_configured_lines_find [OF builder] by simp
  have fresh: "configured_settings ?m off = Some default_line_settings"
    if empty: "get_line_settings (GetConfig lc) = []" for off
  proof -
    have cfg: "cfg_config lc = []"
      using empty by (simp add: get_line_settings_def GetConfig_def)
    then have "map_find ?k (cfg_settings_map lc) = None"
      using same by (simp add: map_find_def)
    then have "?m = [(?k, default_line_settings)]"
      using new_entry cfg by simp
    then show ?thesis
      by (simp add: configured_settings_def map_find_def map_begin_def)
  qed
  have entry: "map_find ?k (cfg_settings_map lc) = None \<longrightarrow>
      map_find ?k (cfg_settings_map ?lc') = Some default_line_settings
      \<and> map_find ?k ?m = Some default_line_settings"
    using new_entry by (simp add: map_find_assign)
  have built: "\<exists>builder. build_request ?lc' offsets = Some builder
      \<and> (\<forall>off \<in> set offsets.
            map_find off (line_cfg builder) = configured_settings ?m off
            \<and> (get_line_settings (GetConfig lc) = []
                 \<longrightarrow> map_find off (line_cfg builder) = Some default_line_settings))"
    using path builder found fresh by auto
  show ?thesis
    using ok cursor entry own nonempty path built by blast
qed

theorem select_offset_alone_witness:
  "constructed LineConfig_new
   \<and> SetOffset [Number 4] LineConfig_new =
       (Inr Undefined,
        \<lparr>cfg_config = [(4, default_line_settings)],
         cfg_settings_map = [(4, default_line_settings)],
         cfg_current_offset = 4\<rparr>)
   \<and> (\<exists>builder. build_request (snd (SetOffset [Number 4] LineConfig_new)) [4, 6] = Some builder
         \<and> map_find 4 (line_cfg builder) = Some default_line_settings
         \<and> map_find 6 (line_cfg builder) = Some default_line_settings)"
proof -
  have call: "SetOffset [Number 4] LineConfig_new =
       (Inr Undefined,
        \<lparr>cfg_config = [(4, default_line_settings)],
         cfg_settings_map = [(4, default_line_settings)],
         cfg_current_offset = 4\<rparr>)"
    by (simp add: SetOffset_def arg_def EnsureSettingsForCurrentOffset_def LineConfig_new_def
          map_find_def add_line_settings_def Let_def)
  have empty: "get_line_settings (GetConfig LineConfig_new) = []"
    by (simp add: get_line_settings_def GetConfig_def LineConfig_new_def)
  obtain builder where
    built: "build_request (snd (SetOffset [Number 4] LineConfig_new)) [4, 6] = Some builder" and
    every: "\<forall>off \<in> set [4, 6].
              get_line_settings (GetConfig LineConfig_new) = []
                \<longrightarrow> map_find off (line_cfg builder) = Some default_line_settings"
    using select_offset_alone [OF constructed_new, of 4 "[]" "[4, 6]"] by blast
  have "map_find 4 (line_cfg builder) = Some default_line_settings"
    and "map_find 6 (line_cfg builder) = Some default_line_settings"
    using every empty by simp_all
  then show ?thesis using constructed_new call built by simp
qed

subsection \<open>Chip\<close>

text \<open>
  C8. After \<^verbatim>\<open>close()\<close>, whatever the chip's state was before, the three queries (line
  count, label, line info) fail with the ``Chip is closed'' error, which is a
  StateError, and a further \<^verbatim>\<open>close()\<close> returns normally and leaves the chip closed. The
  queries do not change the chip, so this holds for every later call.
\<close>

theorem closed_chip:
  "GetNumLines dev info1 (snd (Close info chip)) = Inl (Error ''Chip is closed'')
   \<and> GetLabel dev info2 (snd (Close info chip)) = Inl (Error ''Chip is closed'')
   \<and> GetLineInfo dev info3 (snd (Close info chip)) = Inl (Error ''Chip is closed'')
   \<and> kind_of (Error ''Chip is closed'') = Some StateError
   \<and> fst (Close info chip) = Inr Undefined
   \<and> Close info4 (snd (Close info chip)) = (Inr Undefined, snd (Close info chip))"
  by (simp add: Close_def GetNumLines_def GetLabel_def GetLineInfo_def split: option.splits)

theorem closed_chip_witness:
  "GetNumLines test_device [] (snd (Close [] test_chip)) = Inl (Error ''Chip is closed'')
   \<and> GetLabel test_device [] (snd (Close [] test_chip)) = Inl (Error ''Chip is closed'')
   \<and> GetLineInfo test_device [Number 3] (snd (Close [] test_chip)) = Inl (Error ''Chip is closed'')
   \<and> kind_of (Error ''Chip is closed'') = Some StateError
   \<and> fst (Close [] test_chip) = Inr Undefined
   \<and> Close [] (snd (Close [] test_chip)) = (Inr Undefined, snd (Close [] test_chip))
   \<and> GetNumLines test_device [] test_chip = Inr (Number 8)"
  using closed_chip [of test_device "[]" "[]" test_chip "[]" "[Number 3]" "[]"]
  by (simp add: GetNumLines_def test_chip_def test_device_def)

subsection \<open>LineRequest\<close>

text \<open>
  C7. After \<^verbatim>\<open>release()\<close>, whatever the request's state was before, \<^verbatim>\<open>getValue\<close> called
  with an offset and \<^verbatim>\<open>setValue\<close> called with an offset and a value fail with the ``Line
  request is not active'' error, which is a StateError; \<^verbatim>\<open>release()\<close> itself returns
  normally, and a second \<^verbatim>\<open>release()\<close> returns normally and changes nothing. Neither
  \<^verbatim>\<open>getValue\<close> nor \<^verbatim>\<open>setValue\<close> changes the object, so this holds for every later call.
\<close>

theorem released_request:
  "GetValue dev (Number n # rest) (snd (Release info lr)) = Inl (Error ''Line request is not active'')
   \<and> SetValue dev (Number n # Number v # rest') (snd (Release info lr))
       = Inl (Error ''Line request is not active'')
   \<and> kind_of (Error ''Line request is not active'') = Some StateError
   \<and> fst (Release info lr) = Inr Undefined
   \<and> Release info' (snd (Release info lr)) = (Inr Undefined, snd (Release info lr))"
  by (simp add: Release_def GetValue_def SetValue_def arg_def split: option.splits)

theorem released_request_witness:
  "GetValue test_device [Number 3] (snd (Release [] input_line_3))
       = Inl (Error ''Line request is not active'')
   \<and> SetValue test_device [Number 3, Number 1] (snd (Release [] input_line_3))
       = Inl (Error ''Line request is not active'')
   \<and> kind_of (Error ''Line request is not active'') = Some StateError
   \<and> fst (Release [] input_line_3) = Inr Undefined
   \<and> Release [] (snd (Release [] input_line_3)) = (Inr Undefined, snd (Release [] input_line_3))
   \<and> GetValue test_device [Number 3] input_line_3 = Inr (Number 0)"
  using released_request [of test_device 3 "[]" "[]" input_line_3 1 "[]" "[]"]
  by (simp add: GetValue_def input_line_3_def test_device_def arg_def map_find_def
        default_line_settings_def value_number_def)

text \<open>
  C6 (as amended). For \<^verbatim>\<open>setValue\<close> called with an offset and a value: it fails with a
  StateError when the handle is not live; on a live handle it fails exactly when the
  device's \<^verbatim>\<open>set_value\<close> throws, and then with a DeviceError that wraps the device's
  message. The wrapper makes no check of its own on how the offset is configured.
\<close>

theorem set_value_failures:
  "(req_request lr = None \<longrightarrow>
      SetValue dev (Number n # Number v # rest) lr = Inl (Error ''Line request is not active'')
      \<and> kind_of (Error ''Line request is not active'') = Some StateError)
   \<and> (\<forall>r. req_request lr = Some r \<longrightarrow>
         (case set_value dev r (word_of_int n)
                 (if (word_of_int v :: 32 word) \<noteq> 0 then ACTIVE else INACTIVE) of
            Inr u \<Rightarrow> SetValue dev (Number n # Number v # rest) lr = Inr Undefined
          | Inl what \<Rightarrow>
              SetValue dev (Number n # Number v # rest) lr
                = Inl (Error (''Failed to set value: '' @ what))
              \<and> kind_of (Error (''Failed to set value: '' @ what)) = Some DeviceError))"
  by (simp add: SetValue_def arg_def split: sum.splits)

theorem set_value_failures_witness:
  "SetValue test_device [Number 3, Number 1] (snd (Release [] input_line_3))
      = Inl (Error ''Line request is not active'')
   \<and> SetValue test_device [Number 3, Number 1] input_line_3
      = Inl (Error ''Failed to set value: Operation not permitted'')"
proof -
  have none: "req_request (snd (Release [] input_line_3)) = None"
    by (simp add: Release_def input_line_3_def)
  have some: "req_request input_line_3 =
      Some \<lparr>granted_consumer = ''libgpiod2-node'',
            granted_lines = [(3, default_line_settings\<lparr>direction := INPUT\<rparr>)]\<rparr>"
    by (simp add: input_line_3_def)
  have dev: "set_value test_device
      \<lparr>granted_consumer = ''libgpiod2-node'',
       granted_lines = [(3, default_line_settings\<lparr>direction := INPUT\<rparr>)]\<rparr>
      (word_of_int 3) (if (word_of_int 1 :: 32 word) \<noteq> 0 then ACTIVE else INACTIVE)
      = Inl ''Operation not permitted''"
    by (simp add: test_device_def map_find_def default_line_settings_def)
  show ?thesis
    using set_value_failures [of "snd (Release [] input_line_3)" test_device 3 1 "[]"]
      set_value_failures [of input_line_3 test_device 3 1 "[]"] none some dev
    by simp
qed

text \<open>
  C6 as stated fails. Offset 3 is requested as an input and the request is live;
  \<^verbatim>\<open>setValue(3, 1)\<close> reaches the device, which refuses, and the failure thrown is the
  wrapped device failure, a DeviceError and not a StateError.
\<close>

theorem set_value_on_input_counterexample:
  "LineRequest_new test_device
      [ChipObject test_chip, Array [Number 3], LineConfigObject config_3_input] = Inr input_line_3
   \<and> map_option direction (map_find 3 (get_line_settings (GetConfig config_3_input))) = Some INPUT
   \<and> SetValue test_device [Number 3, Number 1] input_line_3
       = Inl (Error ''Failed to set value: Operation not permitted'')
   \<and> kind_of (Error ''Failed to set value: Operation not permitted'') = Some DeviceError
   \<and> kind_of (Error ''Failed to set value: Operation not permitted'') \<noteq> Some StateError"
proof -
  have cfg: "config_3_input =
      \<lparr>cfg_config = [(3, default_line_settings\<lparr>direction := INPUT\<rparr>)],
       cfg_settings_map = [(3, default_line_settings\<lparr>direction := INPUT\<rparr>)],
       cfg_current_offset = 3\<rparr>"
    by (simp add: config_3_input_def SetDirection_def SetOffset_def LineConfig_new_def
        EnsureSettingsForCurrentOffset_def store_settings_def add_line_settings_def
        map_find_def arg_def Let_def)
  have "map_option direction (map_find 3 (get_line_settings (GetConfig config_3_input)))
      = Some INPUT"
    by (simp add: cfg get_line_settings_def GetConfig_def map_find_def)
  moreover have "SetValue test_device [Number 3, Number 1] input_line_3
       = Inl (Error ''Failed to set value: Operation not permitted'')"
    by (simp add: SetValue_def input_line_3_def test_device_def arg_def map_find_def
        default_line_settings_def)
  ultimately show ?thesis by (simp add: input_line_3_built)
qed

subsection \<open>Line\<close>

lemma StopWatchThread_watching:
  "line_watching l \<Longrightarrow>
   StopWatchThread l =
     l\<lparr>line_watching := False, line_watch_thread := False, line_tsfn := None,
       line_calls := line_calls l @ (if line_watch_thread l then [NotifyAll, ThreadJoin] else [])
                       @ [TsfnRelease]\<rparr>"
  by (simp add: StopWatchThread_def)

lemma StopWatchThread_frame:
  "line_request (StopWatchThread l) = line_request l"
  "line_exported (StopWatchThread l) = line_exported l"
  "line_chip (StopWatchThread l) = line_chip l"
  "line_offset (StopWatchThread l) = line_offset l"
  "\<not> line_watching (StopWatchThread l)"
  by (simp_all add: StopWatchThread_def Let_def)

text \<open>
  A thread that has left its loop by itself stays joinable, and \<^verbatim>\<open>StopWatchThread\<close> does
  not join it once \<^verbatim>\<open>watching_\<close> is clear: the next \<^verbatim>\<open>watch\<close> assigns to a joinable
  thread.
\<close>

lemma watch_after_self_stop:
  "line_exported l \<Longrightarrow> line_request l \<noteq> None \<Longrightarrow> \<not> line_watching l \<Longrightarrow>
   line_watch_thread l \<Longrightarrow> fst (Watch (Function cb # rest) l) = Inl Crash"
  by (simp add: Watch_def arg_def StopWatchThread_def)

text \<open>
  C2 (as amended). \<^verbatim>\<open>watch\<close> called with a callback fails with the ``Line is not
  exported'' StateError whenever the line is not exported, and then changes nothing. On
  an exported Line that is already Watching it does not fail: it stops the running loop
  (clears the flag, joins the thread if there is one and releases the thread-safe
  function), then makes a thread-safe function for the new callback and starts a new
  background loop.
\<close>

theorem watch_again:
  "(\<not> line_exported l \<or> line_request l = None \<longrightarrow>
      Watch (Function cb # rest) l = (Inl (Error ''Line is not exported''), l)
      \<and> kind_of (Error ''Line is not exported'') = Some StateError)
   \<and> (line_exported l \<and> line_request l \<noteq> None \<and> line_watching l \<longrightarrow>
      Watch (Function cb # rest) l =
        (Inr Undefined,
         l\<lparr>line_watching := True, line_watch_thread := True, line_tsfn := Some cb,
           line_calls := line_calls l
              @ (if line_watch_thread l then [NotifyAll, ThreadJoin] else [])
              @ [TsfnRelease, TsfnNew cb, ThreadStart]\<rparr>))"
  by (auto simp: Watch_def arg_def StopWatchThread_watching)

theorem watch_again_witness:
  "Watch [Function 2] (snd (Unexport [] watching_line_3))
      = (Inl (Error ''Line is not exported''), snd (Unexport [] watching_line_3))
   \<and> Watch [Function 2] watching_line_3 =
        (Inr Undefined,
         watching_line_3\<lparr>line_tsfn := Some 2,
           line_calls := [TsfnNew 1, ThreadStart, NotifyAll, ThreadJoin, TsfnRelease,
                          TsfnNew 2, ThreadStart]\<rparr>)"
proof -
  have unexported: "\<not> line_exported (snd (Unexport [] watching_line_3))"
    by (simp add: Unexport_def Let_def StopWatchThread_frame)
  have watching: "line_exported watching_line_3 \<and> line_request watching_line_3 \<noteq> None
      \<and> line_watching watching_line_3 \<and> line_watch_thread watching_line_3"
    by (simp add: watching_line_3_value exported_line_3_def)
  show ?thesis
    using watch_again [of "snd (Unexport [] watching_line_3)" 2 "[]"]
      watch_again [of watching_line_3 2 "[]"] unexported watching
    by (simp add: watching_line_3_value)
qed

text \<open>
  C2 as stated fails. The Line is exported and Watching; a second \<^verbatim>\<open>watch\<close> returns
  normally, and after joining the first thread it has started another.
\<close>

theorem watch_again_counterexample:
  "line_exported watching_line_3 \<and> line_watching watching_line_3
   \<and> fst (Watch [Function 2] watching_line_3) = Inr Undefined
   \<and> line_calls (snd (Watch [Function 2] watching_line_3)) =
       line_calls watching_line_3 @ [NotifyAll, ThreadJoin, TsfnRelease, TsfnNew 2, ThreadStart]"
  by (simp add: watching_line_3_value exported_line_3_def Watch_def arg_def StopWatchThread_def)



subsection \<open>The watch thread\<close>

lemma watch_loop_stopped: "watch_loop its False calls = Some (False, calls)"
  by (cases its) simp_all

lemma watch_loop_quiet_pass:
  assumes "device_error it = None" "stop_request it = NoStop"
  shows "watch_loop (it # its) True calls =
           watch_loop its True (calls @ map DeliverValue (edge_values [it]))"
  using assms by (auto simp: device_error_def split: sum.splits if_splits)

lemma watch_loop_quiet_passes:
  "\<forall>it \<in> set before. device_error it = None \<and> stop_request it = NoStop \<Longrightarrow>
   watch_loop (before @ its) True calls =
     watch_loop its True (calls @ map DeliverValue (edge_values before))"
proof (induction before arbitrary: calls)
  case Nil
  show ?case by simp
next
  case (Cons it before)
  have "watch_loop ((it # before) @ its) True calls =
          watch_loop (before @ its) True (calls @ map DeliverValue (edge_values [it]))"
    using Cons.prems by (simp add: watch_loop_quiet_pass del: watch_loop.simps)
  also have "\<dots> = watch_loop its True
      ((calls @ map DeliverValue (edge_values [it])) @ map DeliverValue (edge_values before))"
    using Cons.prems by (intro Cons.IH) simp
  finally show ?case by simp
qed

lemma watch_loop_failing_pass:
  assumes "caught_while_watching it = Some what"
  shows "watch_loop (it # its) True calls = Some (False, calls @ [DeliverError what])"
  using assms
  by (auto simp: caught_while_watching_def watch_loop_stopped split: sum.splits if_splits)

text \<open>An exception met after the flag was cleared is not reported.\<close>

lemma watch_loop_error_after_stop:
  assumes "device_error it = Some what" "caught_while_watching it = None"
  shows "watch_loop (it # its) True calls = Some (False, calls)"
  using assms
  by (auto simp: device_error_def caught_while_watching_def watch_loop_stopped
        split: sum.splits if_splits)

text \<open>
  C4. The thread runs on an exported line with a live request, \<^verbatim>\<open>watching_\<close> set. As
  long as the device raises no error and nobody clears the flag, each pass reports the
  edge it reads, if any. In the first pass in which \<^verbatim>\<open>wait_edge_events\<close> or
  \<^verbatim>\<open>read_edge_events\<close> throws and the \<^verbatim>\<open>catch\<close> block finds the flag still set, the
  thread reports that error, once, clears \<^verbatim>\<open>watching_\<close> and returns: the error is the
  last report it makes, whatever the device would have done afterwards.
\<close>

theorem device_error_delivered_once:
  assumes "line_request l = Some lr" "line_exported l" "GetRequest lr = Some request"
      and "line_watching l" "\<not> buffer_throws env"
      and "iterations env = before @ it # after"
      and "\<forall>p \<in> set before. device_error p = None \<and> stop_request p = NoStop"
      and "caught_while_watching it = Some what"
  shows "WatchThread l env =
           Some (Inr (False, map DeliverValue (edge_values before) @ [DeliverError what]))"
proof -
  have "watch_loop (before @ it # after) True [] =
          watch_loop (it # after) True ([] @ map DeliverValue (edge_values before))"
    using assms(7) by (rule watch_loop_quiet_passes)
  also have "\<dots> = Some (False, map DeliverValue (edge_values before) @ [DeliverError what])"
    using assms(8) by (simp add: watch_loop_failing_pass del: watch_loop.simps)
  finally show ?thesis using assms(1-6) by (simp add: WatchThread_def)
qed

theorem device_error_delivered_once_witness:
  "WatchThread watching_line_3
     \<lparr>buffer_throws = False,
      iterations = [rising_pass, timeout_pass, failing_pass, rising_pass]\<rparr>
   = Some (Inr (False, [DeliverValue 1, DeliverError ''Input/output error'']))"
proof -
  have line: "line_request watching_line_3 = Some input_line_3" "line_exported watching_line_3"
    "line_watching watching_line_3"
    by (simp_all add: watching_line_3_value exported_line_3_def)
  have req: "GetRequest input_line_3 =
      Some \<lparr>granted_consumer = ''libgpiod2-node'',
            granted_lines = [(3, default_line_settings\<lparr>direction := INPUT\<rparr>)]\<rparr>"
    by (simp add: GetRequest_def input_line_3_def)
  have env: "\<not> buffer_throws \<lparr>buffer_throws = False,
      iterations = [rising_pass, timeout_pass, failing_pass, rising_pass]\<rparr>"
    "iterations \<lparr>buffer_throws = False,
      iterations = [rising_pass, timeout_pass, failing_pass, rising_pass]\<rparr>
      = [rising_pass, timeout_pass] @ failing_pass # [rising_pass]"
    by simp_all
  have quiet: "\<forall>p \<in> set [rising_pass, timeout_pass].
      device_error p = None \<and> stop_request p = NoStop"
    by (simp add: device_error_def rising_pass_def timeout_pass_def)
  have failing: "caught_while_watching failing_pass = Some ''Input/output error''"
    by (simp add: caught_while_watching_def failing_pass_def)
  have vals: "edge_values [rising_pass, timeout_pass] = [1]"
    by (simp add: rising_pass_def timeout_pass_def)
  show ?thesis
    using device_error_delivered_once [OF line(1,2) req line(3) env quiet failing]
    unfolding vals by simp
qed

subsection \<open>Stopping a running watch\<close>

text \<open>
  A pass in which the flag is cleared is the thread's last: it leaves the loop with at
  most one report, and with none if the flag was cleared before its check.
\<close>

lemma watch_loop_stopping_pass:
  assumes "stop_request it \<noteq> NoStop"
  shows "\<exists>calls. watch_loop (it # its) True acc = Some (False, acc @ calls)
           \<and> length calls \<le> 1
           \<and> (stop_request it = StopDuringWait \<longrightarrow> calls = [])"
  using assms
  by (cases "stop_request it")
     (auto simp: watch_loop_stopped split: sum.splits)

lemma event_loop_delivered:
  "world_delivered (event_loop n w) = world_delivered w @ take n (world_queue w)"
proof (induction n arbitrary: w)
  case 0
  show ?case by simp
next
  case (Suc n)
  show ?case
  proof (cases "world_queue w")
    case Nil
    then have "world_queue (tsfn_dispatch w) = []" "world_delivered (tsfn_dispatch w) = world_delivered w"
      by (simp_all add: tsfn_dispatch_def)
    then show ?thesis using Suc.IH [of "tsfn_dispatch w"] Nil by simp
  next
    case (Cons c q)
    then have "world_queue (tsfn_dispatch w) = q"
      "world_delivered (tsfn_dispatch w) = world_delivered w @ [c]"
      by (simp_all add: tsfn_dispatch_def)
    then show ?thesis using Suc.IH [of "tsfn_dispatch w"] Cons by simp
  qed
qed

lemma fold_BlockingCall:
  "0 < world_threads w \<Longrightarrow>
   fold tsfn_BlockingCall calls w = w\<lparr>world_queue := world_queue w @ calls\<rparr>"
  by (induction calls arbitrary: w) (simp_all add: tsfn_BlockingCall_def)

lemma watch_loop_last_pass:
  "stop_request it \<noteq> NoStop \<Longrightarrow> watch_loop (it # its) True acc = watch_loop [it] True acc"
  by (cases "stop_request it") (auto simp: watch_loop_stopped split: sum.splits)

lemma event_loop_queue:
  "world_queue (event_loop n w) = drop n (world_queue w)"
proof (induction n arbitrary: w)
  case 0
  show ?case by simp
next
  case (Suc n)
  have "world_queue (tsfn_dispatch w) = tl (world_queue w)"
    by (simp add: tsfn_dispatch_def split: list.splits)
  then show ?case using Suc.IH [of "tsfn_dispatch w"] by (simp add: drop_Suc)
qed

text \<open>As long as the thread stays in its loop, the join does not return.\<close>

lemma Unwatch_blocks:
  assumes "line_watching (world_line w)" "line_watch_thread (world_line w)"
      and "stop_request pass = NoStop" "device_error pass = None"
  shows "Unwatch_while_running pass info w = None"
  using assms
  by (auto simp: Unwatch_while_running_def device_error_def split: sum.splits if_splits)

text \<open>
  C5 (as amended). The Line is Watching and its thread is running; \<^verbatim>\<open>unwatch\<close> clears
  the flag while the thread is in a pass of its loop. The loop ends in that pass,
  whatever the device would have done later, so the join returns and \<^verbatim>\<open>unwatch\<close> with
  it: the flag is clear, the thread is joined and then the thread-safe function
  released. In that pass the thread reports at most once, and not at all if the flag was
  cleared before its check, even with an event available. \<^verbatim>\<open>unwatch\<close> itself runs no
  callback. What is on the queue when it returns, the earlier reports not yet run and
  the report of the last pass, is run by the event loop afterwards, in order, and
  nothing else is.
\<close>

theorem stop_joins_then_queue_drains:
  assumes "line_watching (world_line w)" "line_watch_thread (world_line w)"
      and "0 < world_threads w"
      and "stop_request pass \<noteq> NoStop"
  shows "\<exists>w1 calls.
           Unwatch_while_running pass info w = Some (Inr Undefined, w1)
           \<and> watch_loop (pass # later) True [] = Some (False, calls)
           \<and> length calls \<le> 1
           \<and> (stop_request pass = StopDuringWait \<longrightarrow> calls = [])
           \<and> \<not> line_watching (world_line w1)
           \<and> \<not> line_watch_thread (world_line w1)
           \<and> line_calls (world_line w1) =
               line_calls (world_line w) @ [NotifyAll, ThreadJoin, TsfnRelease]
           \<and> world_queue w1 = world_queue w @ calls
           \<and> world_delivered w1 = world_delivered w
           \<and> (\<forall>n. world_delivered (event_loop n w1) =
                      world_delivered w @ take n (world_queue w @ calls)
                    \<and> world_queue (event_loop n w1) = drop n (world_queue w @ calls))"
proof -
  obtain calls where last: "watch_loop [pass] True [] = Some (False, calls)"
    and short: "length calls \<le> 1"
    and none: "stop_request pass = StopDuringWait \<longrightarrow> calls = []"
    using watch_loop_stopping_pass [OF assms(4), of "[]" "[]"]
    by (auto simp del: watch_loop.simps)
  let ?w1 = "(tsfn_Release (fold tsfn_BlockingCall calls w))
               \<lparr>world_line := snd (Unwatch info (world_line w))\<rparr>"
  have run: "Unwatch_while_running pass info w = Some (Inr Undefined, ?w1)"
    using assms(1,2) last
    by (simp add: Unwatch_while_running_def Unwatch_def del: watch_loop.simps)
  have loop: "watch_loop (pass # later) True [] = Some (False, calls)"
    using watch_loop_last_pass [OF assms(4), of later "[]"] last
    by (simp del: watch_loop.simps)
  have line: "world_line ?w1 = StopWatchThread (world_line w)"
    by (simp add: Unwatch_def)
  have stopped: "\<not> line_watching (world_line ?w1)" "\<not> line_watch_thread (world_line ?w1)"
    "line_calls (world_line ?w1) =
       line_calls (world_line w) @ [NotifyAll, ThreadJoin, TsfnRelease]"
    using assms(1,2) by (simp_all add: line StopWatchThread_watching)
  have queue: "world_queue ?w1 = world_queue w @ calls"
    and delivered: "world_delivered ?w1 = world_delivered w"
    by (simp_all add: fold_BlockingCall [OF assms(3)] tsfn_Release_def)
  have later: "\<forall>n. world_delivered (event_loop n ?w1) =
                      world_delivered w @ take n (world_queue w @ calls)
                    \<and> world_queue (event_loop n ?w1) = drop n (world_queue w @ calls)"
    using queue delivered by (simp add: event_loop_delivered event_loop_queue)
  show ?thesis
    using run loop short none stopped queue delivered later by blast
qed

lemma stopping_run:
  "Unwatch_while_running stopping_pass [] watching_world =
     Some (Inr Undefined,
           \<lparr>world_line = exported_line_3\<lparr>line_calls :=
                [TsfnNew 1, ThreadStart, NotifyAll, ThreadJoin, TsfnRelease]\<rparr>,
            world_queue = [DeliverValue 1], world_threads = 0,
            world_destroyed = False, world_delivered = []\<rparr>)"
  by (simp add: Unwatch_while_running_def watching_world_def stopping_pass_def
        watching_line_3_value exported_line_3_def Unwatch_def StopWatchThread_def
        tsfn_Release_def tsfn_BlockingCall_def)

text \<open>
  C5 as stated fails. A rising edge is available and the flag is cleared after the
  thread has checked it. \<^verbatim>\<open>unwatch\<close> returns with the thread joined and no callback run
  yet; the next turn of the event loop runs the callback on that event.
\<close>

theorem delivery_after_stop_counterexample:
  "(case Unwatch_while_running stopping_pass [] watching_world of
      None \<Rightarrow> False
    | Some (result, w1) \<Rightarrow>
        result = Inr Undefined
        \<and> \<not> line_watch_thread (world_line w1)
        \<and> world_delivered w1 = []
        \<and> world_delivered (event_loop 1 w1) = [DeliverValue 1])"
  by (simp only: stopping_run option.case prod.case)
     (simp add: exported_line_3_def tsfn_dispatch_def)

theorem stop_joins_then_queue_drains_witness:
  "line_watching (world_line watching_world) \<and> line_watch_thread (world_line watching_world)
   \<and> 0 < world_threads watching_world
   \<and> stop_request stopping_pass \<noteq> NoStop
   \<and> (\<exists>w1. Unwatch_while_running stopping_pass [] watching_world = Some (Inr Undefined, w1)
          \<and> watch_loop [stopping_pass, rising_pass] True [] = Some (False, [DeliverValue 1])
          \<and> line_calls (world_line w1) =
               [TsfnNew 1, ThreadStart, NotifyAll, ThreadJoin, TsfnRelease]
          \<and> world_delivered w1 = []
          \<and> world_delivered (event_loop 2 w1) = [DeliverValue 1]
          \<and> world_queue (event_loop 2 w1) = [])"
proof -
  have h: "line_watching (world_line watching_world)"
    "line_watch_thread (world_line watching_world)"
    "0 < world_threads watching_world"
    "stop_request stopping_pass \<noteq> NoStop"
    by (simp_all add: watching_world_def watching_line_3_value exported_line_3_def
          stopping_pass_def)
  have start: "line_calls (world_line watching_world) = [TsfnNew 1, ThreadStart]"
    "world_queue watching_world = []" "world_delivered watching_world = []"
    by (simp_all add: watching_world_def watching_line_3_value)
  have pass: "watch_loop [stopping_pass, rising_pass] True [] = Some (False, [DeliverValue 1])"
    by (simp add: stopping_pass_def)
  obtain w1 calls where
    run: "Unwatch_while_running stopping_pass [] watching_world = Some (Inr Undefined, w1)"
    and loop: "watch_loop (stopping_pass # [rising_pass]) True [] = Some (False, calls)"
    and log: "line_calls (world_line w1) =
                line_calls (world_line watching_world) @ [NotifyAll, ThreadJoin, TsfnRelease]"
    and before: "world_delivered w1 = world_delivered watching_world"
    and after: "\<forall>n. world_delivered (event_loop n w1) =
                      world_delivered watching_world @ take n (world_queue watching_world @ calls)
                    \<and> world_queue (event_loop n w1) =
                      drop n (world_queue watching_world @ calls)"
    using stop_joins_then_queue_drains [OF h, of "[]" "[rising_pass]"] by blast
  have calls: "calls = [DeliverValue 1]" using loop pass by simp
  have "world_delivered (event_loop 2 w1) = [DeliverValue 1]"
    and "world_queue (event_loop 2 w1) = []"
    using after calls start by simp_all
  then show ?thesis using h run pass log before start by simp
qed

end
